theory Spec2Isabelle
  imports Main
begin

section \<open>Text\<close>

text \<open>
  A Python \<open>str\<close> is a \<^typ>\<open>string\<close>, one \<^typ>\<open>char\<close> per code point; the embedding
  covers text whose code points lie below 256. \<open>isspace\<close>, \<open>strip\<close> and \<open>lower\<close> are
  Python's \<open>str.isspace\<close>, \<open>str.strip()\<close> and \<open>str.lower()\<close> on that range.
\<close>

definition isspace :: "char \<Rightarrow> bool" where
  "isspace c =
     (let n = (of_char c :: nat)
      in (9 \<le> n \<and> n \<le> 13) \<or> (28 \<le> n \<and> n \<le> 32) \<or> n = 133 \<or> n = 160)"

definition strip :: "string \<Rightarrow> string" where
  "strip s = rev (dropWhile isspace (rev (dropWhile isspace s)))"

definition lower_char :: "char \<Rightarrow> char" where
  "lower_char c =
     (let n = (of_char c :: nat)
      in if (65 \<le> n \<and> n \<le> 90) \<or> (192 \<le> n \<and> n \<le> 222 \<and> n \<noteq> 215)
         then char_of (n + 32) else c)"

definition lower :: "string \<Rightarrow> string" where
  "lower s = map lower_char s"

section \<open>Errors\<close>

text \<open>
  The exceptions that leave the two functions. \<open>ValueError\<close> carries the message of the
  \<open>raise\<close> in \<open>parse_timetable_csv\<close>. The two \<open>ValueError\<close>s of
  \<open>datetime.strptime\<close> are kept apart from it: \<open>StrptimeMismatch s\<close> is
  "time data s does not match format", \<open>StrptimeUnconverted r\<close> is
  "unconverted data remains: r".
\<close>

datatype error =
    ValueError string
  | StrptimeMismatch string
  | StrptimeUnconverted string
  | KeyError string
  | OverflowError

definition then_do :: "error + 'a \<Rightarrow> ('a \<Rightarrow> error + 'b) \<Rightarrow> error + 'b" where
  "then_do m f = (case m of Inl e \<Rightarrow> Inl e | Inr x \<Rightarrow> f x)"

section \<open>Tables\<close>

text \<open>
  A cell of a DataFrame is observed by the code through \<open>str(...)\<close> and \<open>pd.notna(...)\<close>
  only. \<open>NaN\<close> is the missing value \<open>read_csv\<close> gives for an empty field; \<open>Val s\<close> is any
  non-null value, \<open>s\<close> being the text \<open>str\<close> returns for it.
\<close>

datatype cell = NaN | Val string

fun str :: "cell \<Rightarrow> string" where
  "str NaN = ''nan''"
| "str (Val s) = s"

text \<open>
  A DataFrame is its column labels and its rows of cells, in column order. \<open>iterrows\<close>
  gives each row as a Series: the cells under their labels. \<open>row[k]\<close> and \<open>row.get(k)\<close>
  are embedded for rows whose labels are distinct, where they give the one cell under
  \<open>k\<close>; under a label that occurs twice pandas gives a Series of the cells instead,
  which is outside the embedding.
\<close>

record dataframe =
  columns :: "string list"
  cells :: "cell list list"

type_synonym row = "(string \<times> cell) list"

definition iterrows :: "dataframe \<Rightarrow> row list" where
  "iterrows df = map (zip (columns df)) (cells df)"

definition row_get :: "row \<Rightarrow> string \<Rightarrow> error + cell" where
  \<comment> \<open>\<open>row[k]\<close>\<close>
  "row_get r k = (case map_of r k of None \<Rightarrow> Inl (KeyError k) | Some c \<Rightarrow> Inr c)"

section \<open>Timetable parsing\<close>

definition required :: "string list" where
  "required = [''day'', ''start'', ''end'', ''subject'']"

definition missing_column :: "string \<Rightarrow> string" where
  "missing_column col =
     ''Missing required column: '' @ col
       @ '' (example CSV header: Day, Start, End, Subject, Location)''"

fun check_required :: "dataframe \<Rightarrow> string list \<Rightarrow> error + dataframe" where
  "check_required df [] = Inr df"
| "check_required df (col # cols) =
     (if col \<notin> set (columns df) then Inl (ValueError (missing_column col))
      else check_required df cols)"

definition normalise_columns :: "dataframe \<Rightarrow> dataframe" where
  \<comment> \<open>\<open>df.columns = [c.strip().lower() for c in df.columns]\<close>\<close>
  "normalise_columns df = df\<lparr>columns := map (\<lambda>c. lower (strip c)) (columns df)\<rparr>"

definition parse_timetable_csv :: "dataframe \<Rightarrow> error + dataframe" where
  \<comment> \<open>The argument is the frame \<open>pd.read_csv\<close> returned.\<close>
  "parse_timetable_csv raw = check_required (normalise_columns raw) required"

section \<open>Dates and times\<close>

text \<open>
  The parts of Python's \<open>datetime\<close> module the builder uses. A date is its proleptic
  Gregorian ordinal (\<open>date.toordinal()\<close>, day 1 being 0001-01-01, a Monday), a
  \<open>timedelta\<close> its normalised days and seconds (the builder makes none with
  microseconds).
\<close>

record time =
  hour :: nat
  minute :: nat
  second :: nat
  microsecond :: nat

record datetime =
  date :: int
  time :: time

record timedelta =
  days :: int
  seconds :: int

definition MAXORDINAL :: int where
  "MAXORDINAL = 3652059"

definition valid_time :: "time \<Rightarrow> bool" where
  "valid_time t = (hour t < 24 \<and> minute t < 60 \<and> second t < 60 \<and> microsecond t < 1000000)"

definition valid_datetime :: "datetime \<Rightarrow> bool" where
  "valid_datetime dt = (1 \<le> date dt \<and> date dt \<le> MAXORDINAL \<and> valid_time (time dt))"

definition weekday :: "datetime \<Rightarrow> int" where
  \<comment> \<open>\<open>(self.toordinal() + 6) % 7\<close>\<close>
  "weekday dt = (date dt + 6) mod 7"

definition combine :: "int \<Rightarrow> time \<Rightarrow> datetime" where
  "combine d t = \<lparr>date = d, time = t\<rparr>"

definition time_less :: "time \<Rightarrow> time \<Rightarrow> bool" where
  \<comment> \<open>\<open>a < b\<close>: hour, minute, second and microsecond, compared in this order\<close>
  "time_less a b =
     (hour a < hour b \<or> (hour a = hour b \<and>
       (minute a < minute b \<or> (minute a = minute b \<and>
         (second a < second b \<or> (second a = second b \<and>
           microsecond a < microsecond b))))))"

definition datetime_less :: "datetime \<Rightarrow> datetime \<Rightarrow> bool" where
  \<comment> \<open>\<open>a < b\<close>: the day first, then the time of day\<close>
  "datetime_less a b = (date a < date b \<or> (date a = date b \<and> time_less (time a) (time b)))"

definition mk_timedelta :: "int \<Rightarrow> int \<Rightarrow> error + timedelta" where
  \<comment> \<open>\<open>timedelta(days=d, seconds=s)\<close>: normalise, then the limit on the days.\<close>
  "mk_timedelta d s =
     (let total = d * 86400 + s; dd = total div 86400; ss = total mod 86400
      in if \<bar>dd\<bar> > 999999999 then Inl OverflowError
         else Inr \<lparr>days = dd, seconds = ss\<rparr>)"

definition timedelta_days :: "int \<Rightarrow> error + timedelta" where
  \<comment> \<open>\<open>timedelta(days=d)\<close>\<close>
  "timedelta_days d = mk_timedelta d 0"

definition timedelta_minutes :: "int \<Rightarrow> error + timedelta" where
  \<comment> \<open>\<open>timedelta(minutes=m)\<close>\<close>
  "timedelta_minutes m = mk_timedelta 0 (m * 60)"

definition timedelta_neg :: "timedelta \<Rightarrow> error + timedelta" where
  \<comment> \<open>\<open>-td\<close>\<close>
  "timedelta_neg td = mk_timedelta (- days td) (- seconds td)"

definition datetime_add :: "datetime \<Rightarrow> timedelta \<Rightarrow> error + datetime" where
  \<comment> \<open>\<open>dt + td\<close>: the sum as days and seconds, then the range check on the day.\<close>
  "datetime_add dt td =
     (let t = time dt;
          secs = int (hour t) * 3600 + int (minute t) * 60 + int (second t) + seconds td;
          d = date dt + days td + secs div 86400;
          s = secs mod 86400
      in if 0 < d \<and> d \<le> MAXORDINAL
         then Inr \<lparr>date = d,
                   time = \<lparr>hour = nat (s div 3600), minute = nat (s mod 3600 div 60),
                           second = nat (s mod 60), microsecond = microsecond t\<rparr>\<rparr>
         else Inl OverflowError)"

definition datetime_sub :: "datetime \<Rightarrow> timedelta \<Rightarrow> error + datetime" where
  \<comment> \<open>\<open>dt - td\<close>, which Python computes as \<open>dt + -td\<close>\<close>
  "datetime_sub dt td = then_do (timedelta_neg td) (datetime_add dt)"

subsection \<open>Strict parsing: \<open>datetime.strptime(s, "%H:%M").time()\<close>\<close>

text \<open>
  \<open>strptime\<close> matches the regular expression
  \<^verbatim>\<open>(?P<H>2[0-3]|[0-1]\d|\d):(?P<M>[0-5]\d|\d)\<close> at the start of the text: the
  alternatives are tried in this order, and an hour alternative is given up when the
  colon and the minutes do not follow it. Text left after the match is an error.
\<close>

definition isdigit :: "char \<Rightarrow> bool" where
  "isdigit c = (let n = (of_char c :: nat) in 48 \<le> n \<and> n \<le> 57)"

definition digit :: "char \<Rightarrow> nat" where
  "digit c = of_char c - 48"

definition match_H :: "string \<Rightarrow> (nat \<times> string) list" where
  "match_H s =
     (case s of
        a # b # r \<Rightarrow>
          (if a = CHR ''2'' \<and> isdigit b \<and> digit b \<le> 3 then [(20 + digit b, r)] else [])
          @ (if isdigit a \<and> digit a \<le> 1 \<and> isdigit b then [(10 * digit a + digit b, r)] else [])
      | _ \<Rightarrow> [])
     @ (case s of a # r \<Rightarrow> (if isdigit a then [(digit a, r)] else []) | [] \<Rightarrow> [])"

definition match_M :: "string \<Rightarrow> (nat \<times> string) list" where
  "match_M s =
     (case s of
        a # b # r \<Rightarrow>
          (if isdigit a \<and> digit a \<le> 5 \<and> isdigit b then [(10 * digit a + digit b, r)] else [])
      | _ \<Rightarrow> [])
     @ (case s of a # r \<Rightarrow> (if isdigit a then [(digit a, r)] else []) | [] \<Rightarrow> [])"

definition match_HM :: "string \<Rightarrow> (nat \<times> nat \<times> string) list" where
  "match_HM s =
     concat (map (\<lambda>(h, r).
       (case r of
          c # r' \<Rightarrow> (if c = CHR '':'' then map (\<lambda>(m, rest). (h, m, rest)) (match_M r') else [])
        | [] \<Rightarrow> [])) (match_H s))"

definition strptime_HM :: "string \<Rightarrow> error + time" where
  "strptime_HM s =
     (case match_HM s of
        [] \<Rightarrow> Inl (StrptimeMismatch s)
      | (h, m, rest) # _ \<Rightarrow>
          if rest \<noteq> [] then Inl (StrptimeUnconverted rest)
          else Inr \<lparr>hour = h, minute = m, second = 0, microsecond = 0\<rparr>)"

section \<open>Calendar building\<close>

text \<open>
  The \<open>ics\<close> library is not among the sources. Its objects are embedded as release 0.7
  of the library has them, the release whose interface the builder uses
  (\<open>cal.events.add\<close>, \<open>ev.name\<close>, \<open>DisplayAlarm(trigger=..., display_text=...)\<close>). An
  \<open>Event()\<close> starts with every attribute unset and no alarm. Assigning \<open>name\<close>,
  \<open>location\<close> or \<open>description\<close> stores the value. Assigning \<open>begin\<close> or \<open>end\<close> first
  compares the value with the other of the two, when that one is set, and raises
  \<open>ValueError\<close> for a begin after the end or an end before the begin. A Calendar is the
  events added to it (each \<open>Event()\<close> has an identifier of its own, so adding never merges
  two events). The builder's result is the Calendar it serialises.
\<close>

record alarm =
  trigger :: timedelta
  display_text :: string

record event =
  ev_name :: "string option"
  ev_location :: "string option"
  ev_description :: "string option"
  ev_begin :: "datetime option"
  ev_end :: "datetime option"
  ev_alarms :: "alarm list"

definition Event :: event where
  "Event = \<lparr>ev_name = None, ev_location = None, ev_description = None,
            ev_begin = None, ev_end = None, ev_alarms = []\<rparr>"

definition set_begin :: "event \<Rightarrow> datetime \<Rightarrow> error + event" where
  \<comment> \<open>\<open>ev.begin = value\<close>\<close>
  "set_begin ev v =
     (case ev_end ev of
        None \<Rightarrow> Inr (ev\<lparr>ev_begin := Some v\<rparr>)
      | Some e \<Rightarrow>
          if datetime_less e v then Inl (ValueError ''Begin must be before end'')
          else Inr (ev\<lparr>ev_begin := Some v\<rparr>))"

definition set_end :: "event \<Rightarrow> datetime \<Rightarrow> error + event" where
  \<comment> \<open>\<open>ev.end = value\<close>\<close>
  "set_end ev v =
     (case ev_begin ev of
        None \<Rightarrow> Inr (ev\<lparr>ev_end := Some v\<rparr>)
      | Some b \<Rightarrow>
          if datetime_less v b then Inl (ValueError ''End must be after begin'')
          else Inr (ev\<lparr>ev_end := Some v\<rparr>))"

definition weekday_map :: "string \<rightharpoonup> int" where
  "weekday_map =
     map_of [(''monday'', 0), (''tuesday'', 1), (''wednesday'', 2), (''thursday'', 3),
             (''friday'', 4), (''saturday'', 5), (''sunday'', 6)]"

definition notna :: "cell option \<Rightarrow> bool" where
  \<comment> \<open>\<open>pd.notna\<close>; \<open>None\<close> is Python's \<open>None\<close>\<close>
  "notna v = (case v of None \<Rightarrow> False | Some NaN \<Rightarrow> False | Some (Val _) \<Rightarrow> True)"

text \<open>
  \<open>pd.to_datetime\<close> is a parameter of the embedding: \<open>to_datetime s\<close> is the timestamp
  it returns for \<open>s\<close>, and \<open>None\<close> when \<open>pd.to_datetime(s).time()\<close> raises.
\<close>

type_synonym to_datetime = "string \<Rightarrow> datetime option"

definition flexible_times :: "to_datetime \<Rightarrow> row \<Rightarrow> (time \<times> time) option" where
  \<comment> \<open>The \<open>try\<close> block: \<open>None\<close> when anything in it raises.\<close>
  "flexible_times to_datetime r =
     (case row_get r ''start'' of
        Inl _ \<Rightarrow> None
      | Inr s \<Rightarrow>
          (case to_datetime (str s) of
             None \<Rightarrow> None
           | Some ts \<Rightarrow>
               (case row_get r ''end'' of
                  Inl _ \<Rightarrow> None
                | Inr e \<Rightarrow>
                    (case to_datetime (str e) of
                       None \<Rightarrow> None
                     | Some te \<Rightarrow> Some (time ts, time te)))))"

definition strict_times :: "row \<Rightarrow> error + (time \<times> time)" where
  \<comment> \<open>The \<open>except\<close> block.\<close>
  "strict_times r =
     then_do (row_get r ''start'') (\<lambda>s.
     then_do (strptime_HM (str s)) (\<lambda>start_time.
     then_do (row_get r ''end'') (\<lambda>e.
     then_do (strptime_HM (str e)) (\<lambda>end_time.
     Inr (start_time, end_time)))))"

definition parse_times :: "to_datetime \<Rightarrow> row \<Rightarrow> error + (time \<times> time)" where
  "parse_times to_datetime r =
     (case flexible_times to_datetime r of
        Some p \<Rightarrow> Inr p
      | None \<Rightarrow> strict_times r)"

definition week_start :: "datetime \<Rightarrow> error + datetime" where
  \<comment> \<open>\<open>monday = start_week_date - timedelta(days=start_week_date.weekday())\<close>\<close>
  "week_start start_week_date =
     then_do (timedelta_days (weekday start_week_date)) (datetime_sub start_week_date)"

definition get_or_None :: "row \<Rightarrow> string \<Rightarrow> cell option" where
  \<comment> \<open>\<open>row.get(k) if k in row else None\<close>\<close>
  "get_or_None r k = map_of r k"

definition fill_event :: "row \<Rightarrow> datetime \<Rightarrow> datetime \<Rightarrow> int \<Rightarrow> error + event" where
  \<comment> \<open>From \<open>ev = Event()\<close> to \<open>ev.alarms.append(alarm)\<close>.\<close>
  "fill_event r dt_start dt_end alarm_minutes =
     then_do (row_get r ''subject'') (\<lambda>subject.
       let ev = Event\<lparr>ev_name := Some (str subject)\<rparr>;
           loc = get_or_None r ''location'';
           ev = (if notna loc then ev\<lparr>ev_location := Some (str (the loc))\<rparr> else ev);
           notes = get_or_None r ''notes'';
           ev = (if notna notes then ev\<lparr>ev_description := Some (str (the notes))\<rparr> else ev)
       in then_do (set_begin ev dt_start) (\<lambda>ev.
          then_do (set_end ev dt_end) (\<lambda>ev.
          then_do (timedelta_minutes (- alarm_minutes)) (\<lambda>trigger.
            let alarm = \<lparr>trigger = trigger,
                         display_text = ''Reminder: '' @ the (ev_name ev)\<rparr>
            in Inr (ev\<lparr>ev_alarms := ev_alarms ev @ [alarm]\<rparr>)))))"

definition row_event :: "to_datetime \<Rightarrow> datetime \<Rightarrow> int \<Rightarrow> row \<Rightarrow> error + event option" where
  \<comment> \<open>The loop body: \<open>None\<close> is \<open>continue\<close>, \<open>Some ev\<close> the event it adds.\<close>
  "row_event to_datetime start_week_date alarm_minutes r =
     then_do (row_get r ''day'') (\<lambda>d.
       let day = lower (strip (str d))
       in case weekday_map day of
            None \<Rightarrow> Inr None
          | Some k \<Rightarrow>
              then_do (week_start start_week_date) (\<lambda>monday.
              then_do (timedelta_days k) (\<lambda>td.
              then_do (datetime_add monday td) (\<lambda>event_date.
              then_do (parse_times to_datetime r) (\<lambda>(start_time, end_time).
                let dt_start = combine (date event_date) start_time;
                    dt_end = combine (date event_date) end_time
                in then_do (fill_event r dt_start dt_end alarm_minutes) (\<lambda>ev.
                     Inr (Some ev)))))))"

fun add_rows :: "to_datetime \<Rightarrow> datetime \<Rightarrow> int \<Rightarrow> row list \<Rightarrow> event list \<Rightarrow> error + event list" where
  \<comment> \<open>The \<open>for\<close> loop over the rows, \<open>cal\<close> being the events added so far.\<close>
  "add_rows to_datetime start_week_date alarm_minutes [] cal = Inr cal"
| "add_rows to_datetime start_week_date alarm_minutes (r # rs) cal =
     (case row_event to_datetime start_week_date alarm_minutes r of
        Inl e \<Rightarrow> Inl e
      | Inr None \<Rightarrow> add_rows to_datetime start_week_date alarm_minutes rs cal
      | Inr (Some ev) \<Rightarrow> add_rows to_datetime start_week_date alarm_minutes rs (cal @ [ev]))"

definition create_calendar_from_df ::
    "to_datetime \<Rightarrow> dataframe \<Rightarrow> datetime \<Rightarrow> int \<Rightarrow> error + event list" where
  "create_calendar_from_df to_datetime df start_week_date alarm_minutes =
     add_rows to_datetime start_week_date alarm_minutes (iterrows df) []"

section \<open>Vocabulary of the properties\<close>

text \<open>
  The weekday index of a row is the entry of \<open>weekday_map\<close> for its trimmed, lowercased
  day text; a row is recognized when it has one. \<open>optional_text\<close> is the text of an
  optional cell that is present and not null.
\<close>

definition weekday_index :: "row \<Rightarrow> int option" where
  "weekday_index r =
     (case map_of r ''day'' of
        None \<Rightarrow> None
      | Some d \<Rightarrow> weekday_map (lower (strip (str d))))"

definition recognized :: "row \<Rightarrow> bool" where
  "recognized r = (weekday_index r \<noteq> None)"

text \<open>
  The seven weekday names in the order of their indices, Monday first; \<open>names_weekday\<close>
  holds of a row whose trimmed, lowercased day text is one of them.
\<close>

definition weekday_names :: "string list" where
  "weekday_names =
     [''monday'', ''tuesday'', ''wednesday'', ''thursday'', ''friday'', ''saturday'',
      ''sunday'']"

definition names_weekday :: "row \<Rightarrow> bool" where
  "names_weekday r =
     (case map_of r ''day'' of
        None \<Rightarrow> False
      | Some d \<Rightarrow> lower (strip (str d)) \<in> set weekday_names)"

definition optional_text :: "cell option \<Rightarrow> string option" where
  "optional_text v = (case v of Some (Val s) \<Rightarrow> Some s | _ \<Rightarrow> None)"

section \<open>Example inputs\<close>

text \<open>
  The inputs at which the theorems below are instantiated. \<open>to_datetime_sample\<close> lists
  what \<open>pd.to_datetime\<close> returns for the texts of the example tables (a bare time of
  day comes back on the day of the call, taken here to be 2024-01-18); the one other
  text the tables hold, \<open>25:99\<close>, it rejects. \<open>anchor_example\<close> is Thursday 2024-01-18,
  ordinal 738903; the Monday of its week is 2024-01-15, ordinal 738900.
\<close>

definition header_example :: dataframe where
  "header_example =
     \<lparr>columns = ['' Subject'', ''END'', ''Start '', ''Day'', ''Location''],
      cells = [[Val ''Algorithms'', Val ''10:30'', Val ''09:00'', Val ''Monday'', Val ''Room 4'']]\<rparr>"

definition header_no_end :: dataframe where
  "header_no_end =
     \<lparr>columns = [''Day'', ''Start'', ''Finish'', ''Subject''],
      cells = [[Val ''Monday'', Val ''09:00'', Val ''10:30'', Val ''Algorithms'']]\<rparr>"

definition clock :: "nat \<Rightarrow> nat \<Rightarrow> time" where
  "clock h m = \<lparr>hour = h, minute = m, second = 0, microsecond = 0\<rparr>"

definition to_datetime_sample :: to_datetime where
  "to_datetime_sample s =
     (if s = ''09:00'' then Some \<lparr>date = 738903, time = clock 9 0\<rparr>
      else if s = ''9:00AM'' then Some \<lparr>date = 738903, time = clock 9 0\<rparr>
      else if s = ''10:30'' then Some \<lparr>date = 738903, time = clock 10 30\<rparr>
      else if s = ''2:30PM'' then Some \<lparr>date = 738903, time = clock 14 30\<rparr>
      else if s = ''4:00PM'' then Some \<lparr>date = 738903, time = clock 16 0\<rparr>
      else if s = ''2024-01-15'' then Some \<lparr>date = 738900, time = clock 0 0\<rparr>
      else None)"

definition anchor_example :: datetime where
  "anchor_example = \<lparr>date = 738903, time = clock 0 0\<rparr>"

definition anchor_sunday :: datetime where
  \<comment> \<open>Sunday 2024-01-21, 18:45\<close>
  "anchor_sunday = \<lparr>date = 738906, time = clock 18 45\<rparr>"

definition timetable :: "cell list list \<Rightarrow> dataframe" where
  "timetable cs =
     \<lparr>columns = [''day'', ''start'', ''end'', ''subject'', ''location'', ''notes''],
      cells = cs\<rparr>"

definition series :: "cell list \<Rightarrow> row" where
  \<comment> \<open>a row of \<open>timetable cs\<close> as \<open>iterrows\<close> gives it\<close>
  "series cs = zip [''day'', ''start'', ''end'', ''subject'', ''location'', ''notes''] cs"

definition row_monday :: "cell list" where
  "row_monday =
     [Val ''Monday'', Val ''09:00'', Val ''10:30'', Val ''Algorithms'', Val ''Room 4'',
      Val ''Bring laptop'']"

definition row_wednesday :: "cell list" where
  "row_wednesday =
     [Val ''Wednesday'', Val ''2:30PM'', Val ''4:00PM'', Val ''Databases'', NaN, NaN]"

definition row_funday :: "cell list" where
  "row_funday = [Val ''Funday'', Val ''09:00'', Val ''10:30'', Val ''Games'', NaN, NaN]"

definition row_backwards :: "cell list" where
  "row_backwards = [Val '' friday '', Val ''2:30PM'', Val ''9:00AM'', Val ''Review'', NaN, NaN]"

definition row_dated :: "cell list" where
  "row_dated = [Val ''Wednesday'', Val ''2024-01-15'', Val ''10:30'', Val ''Lab'', NaN, NaN]"

definition row_dated_end :: "cell list" where
  "row_dated_end = [Val ''Wednesday'', Val ''10:30'', Val ''2024-01-15'', Val ''Lab'', NaN, NaN]"

definition row_sunday :: "cell list" where
  "row_sunday = [Val ''SUNDAY'', Val ''9:00AM'', Val ''10:30'', Val ''Review'', NaN, NaN]"

definition row_bad_end :: "cell list" where
  "row_bad_end = [Val ''Tuesday'', Val ''2:30PM'', Val ''25:99'', Val ''Seminar'', NaN, NaN]"

definition reminder :: "string \<Rightarrow> alarm list" where
  "reminder s = [\<lparr>trigger = \<lparr>days = - 1, seconds = 84600\<rparr>, display_text = ''Reminder: '' @ s\<rparr>]"

definition event_monday :: event where
  "event_monday =
     \<lparr>ev_name = Some ''Algorithms'', ev_location = Some ''Room 4'',
      ev_description = Some ''Bring laptop'',
      ev_begin = Some \<lparr>date = 738900, time = clock 9 0\<rparr>,
      ev_end = Some \<lparr>date = 738900, time = clock 10 30\<rparr>,
      ev_alarms = reminder ''Algorithms''\<rparr>"

definition event_wednesday :: event where
  "event_wednesday =
     \<lparr>ev_name = Some ''Databases'', ev_location = None, ev_description = None,
      ev_begin = Some \<lparr>date = 738902, time = clock 14 30\<rparr>,
      ev_end = Some \<lparr>date = 738902, time = clock 16 0\<rparr>,
      ev_alarms = reminder ''Databases''\<rparr>"

definition event_sunday :: event where
  "event_sunday =
     \<lparr>ev_name = Some ''Review'', ev_location = None, ev_description = None,
      ev_begin = Some \<lparr>date = 738906, time = clock 9 0\<rparr>,
      ev_end = Some \<lparr>date = 738906, time = clock 10 30\<rparr>,
      ev_alarms = reminder ''Review''\<rparr>"

definition event_dated :: event where
  "event_dated =
     \<lparr>ev_name = Some ''Lab'', ev_location = None, ev_description = None,
      ev_begin = Some \<lparr>date = 738902, time = clock 0 0\<rparr>,
      ev_end = Some \<lparr>date = 738902, time = clock 10 30\<rparr>,
      ev_alarms = reminder ''Lab''\<rparr>"

section \<open>Basic facts\<close>

lemma then_do_Inl [simp]: "then_do (Inl e) f = Inl e"
  by (simp add: then_do_def)

lemma then_do_Inr [simp]: "then_do (Inr x) f = f x"
  by (simp add: then_do_def)

lemma then_do_eq_Inr:
  "then_do m f = Inr y \<longleftrightarrow> (\<exists>x. m = Inr x \<and> f x = Inr y)"
  by (cases m) simp_all

lemma weekday_range: "0 \<le> weekday dt \<and> weekday dt < 7"
  by (simp add: weekday_def)

lemma weekday_map_range: "weekday_map s = Some k \<Longrightarrow> 0 \<le> k \<and> k \<le> 6"
  by (auto simp: weekday_map_def split: if_splits)

lemma timedelta_days_small:
  "\<bar>k\<bar> \<le> 999999999 \<Longrightarrow> timedelta_days k = Inr \<lparr>days = k, seconds = 0\<rparr>"
  by (simp add: timedelta_days_def mk_timedelta_def)

lemma timedelta_neg_days:
  "timedelta_neg \<lparr>days = k, seconds = 0\<rparr> = Inr \<lparr>days = - k, seconds = 0\<rparr>"
  if "\<bar>k\<bar> \<le> 999999999"
proof -
  have "- (k * 86400) = (- k) * (86400::int)" by simp
  then have "(- (k * 86400)) div (86400::int) = - k" "(- (k * 86400)) mod (86400::int) = 0"
    by simp_all
  then show ?thesis using that by (simp add: timedelta_neg_def mk_timedelta_def Let_def)
qed

lemma time_of_day_seconds:
  fixes h m s :: nat
  assumes "h < 24" "m < 60" "s < 60"
  defines "secs \<equiv> int h * 3600 + int m * 60 + int s"
  shows "secs div 86400 = 0" "secs mod 86400 = secs" "nat (secs div 3600) = h"
    "nat (secs mod 3600 div 60) = m" "nat (secs mod 60) = s"
proof -
  have b: "0 \<le> secs" "secs < 86400" using assms by (auto simp: secs_def)
  show "secs div 86400 = 0" "secs mod 86400 = secs" using b by simp_all
  have ms: "0 \<le> int m * 60 + int s" "int m * 60 + int s < 3600" using assms by auto
  have "secs = int h * 3600 + (int m * 60 + int s)" by (simp add: secs_def)
  then have d: "secs div 3600 = int h" and r: "secs mod 3600 = int m * 60 + int s"
    using ms by (simp_all add: div_pos_pos_trivial mod_pos_pos_trivial)
  show "nat (secs div 3600) = h" using d by simp
  have s: "0 \<le> int s" "int s < 60" using assms by auto
  show "nat (secs mod 3600 div 60) = m" using r s by (simp add: div_pos_pos_trivial)
  have "secs = int s + (int h * 60 + int m) * 60" by (simp add: secs_def)
  then have "secs mod 60 = int s mod 60" by (simp only: mod_mult_self1)
  then have "secs mod 60 = int s" using s by simp
  then show "nat (secs mod 60) = s" by simp
qed

lemma datetime_add_days:
  assumes "valid_time (time dt)"
  shows "datetime_add dt \<lparr>days = k, seconds = 0\<rparr> =
           (if 0 < date dt + k \<and> date dt + k \<le> MAXORDINAL
            then Inr (dt\<lparr>date := date dt + k\<rparr>) else Inl OverflowError)"
proof -
  have h: "hour (time dt) < 24" "minute (time dt) < 60" "second (time dt) < 60"
    using assms by (simp_all add: valid_time_def)
  note t = time_of_day_seconds [OF h]
  show ?thesis
    by (simp add: datetime_add_def Let_def t)
qed

lemma weekday_le_date: "1 \<le> date a \<Longrightarrow> weekday a \<le> date a - 1"
  unfolding weekday_def by presburger

lemma week_start_valid:
  assumes "valid_datetime a"
  shows "week_start a = Inr (a\<lparr>date := date a - weekday a\<rparr>)"
proof -
  have w: "0 \<le> weekday a" "weekday a < 7" using weekday_range by simp_all
  have lo: "weekday a \<le> date a - 1"
    using assms weekday_le_date by (simp add: valid_datetime_def)
  have r: "0 < date a + - weekday a \<and> date a + - weekday a \<le> MAXORDINAL"
    using assms w lo by (simp add: valid_datetime_def)
  have v: "valid_time (time a)" using assms by (simp add: valid_datetime_def)
  show ?thesis
    using w r by (simp add: week_start_def timedelta_days_small datetime_sub_def
        timedelta_neg_days datetime_add_days [OF v])
qed

lemma monday_weekday: "weekday (a\<lparr>date := date a - weekday a\<rparr>) = 0"
  by (simp add: weekday_def) presburger

lemma row_get_map_of:
  "map_of r k = Some c \<Longrightarrow> row_get r k = Inr c"
  "map_of r k = None \<Longrightarrow> row_get r k = Inl (KeyError k)"
  by (simp_all add: row_get_def)

lemma row_event_unrecognized:
  assumes "map_of r ''day'' = Some d" and "weekday_map (lower (strip (str d))) = None"
  shows "row_event f a m r = Inr None"
  using assms by (simp add: row_event_def row_get_map_of)

lemma row_event_recognized:
  assumes "valid_datetime a" and "weekday_index r = Some k"
  shows "row_event f a m r =
           (if date a - weekday a + k \<le> MAXORDINAL
            then then_do (parse_times f r) (\<lambda>(start_time, end_time).
                   then_do (fill_event r (combine (date a - weekday a + k) start_time)
                              (combine (date a - weekday a + k) end_time) m)
                     (\<lambda>ev. Inr (Some ev)))
            else Inl OverflowError)"
proof -
  obtain d where d: "map_of r ''day'' = Some d" "weekday_map (lower (strip (str d))) = Some k"
    using assms(2) by (auto simp: weekday_index_def split: option.splits)
  have k: "0 \<le> k" "k \<le> 6" using weekday_map_range [OF d(2)] by simp_all
  have w: "0 \<le> weekday a" "weekday a < 7" using weekday_range by simp_all
  have lo: "weekday a \<le> date a - 1"
    using assms(1) weekday_le_date by (simp add: valid_datetime_def)
  have v: "valid_time (time (a\<lparr>date := date a - weekday a\<rparr>))"
    using assms(1) by (simp add: valid_datetime_def)
  have pos: "0 < date a - weekday a + k" using lo k by simp
  show ?thesis
    using k pos
    by (simp add: row_event_def row_get_map_of d week_start_valid [OF assms(1)]
        timedelta_days_small datetime_add_days [OF v])
qed

lemma row_event_Some_recognized:
  assumes "row_event f a m r = Inr (Some ev)"
  shows "recognized r"
proof -
  obtain d where d: "map_of r ''day'' = Some d"
    using assms by (cases "map_of r ''day''") (simp_all add: row_event_def row_get_map_of)
  show ?thesis
    using assms d
    by (cases "weekday_map (lower (strip (str d)))")
      (simp_all add: row_event_def row_get_map_of recognized_def weekday_index_def)
qed

lemma row_event_None_unrecognized:
  assumes "row_event f a m r = Inr None"
  shows "\<not> recognized r"
proof -
  obtain d where d: "map_of r ''day'' = Some d"
    using assms by (cases "map_of r ''day''") (simp_all add: row_event_def row_get_map_of)
  show ?thesis
  proof (cases "weekday_map (lower (strip (str d)))")
    case None
    then show ?thesis using d by (simp add: recognized_def weekday_index_def)
  next
    case (Some k)
    then have "False"
      using assms d
      by (auto simp: row_event_def row_get_map_of then_do_eq_Inr split: prod.splits)
    then show ?thesis ..
  qed
qed

lemma add_rows_Inr:
  assumes "add_rows f a m rs cal = Inr cal'"
  shows "\<exists>evs. cal' = cal @ evs \<and>
           list_all2 (\<lambda>r ev. row_event f a m r = Inr (Some ev)) (filter recognized rs) evs"
  using assms
proof (induction rs arbitrary: cal)
  case Nil
  then show ?case by simp
next
  case (Cons r rs)
  show ?case
  proof (cases "row_event f a m r")
    case (Inl e)
    then show ?thesis using Cons.prems by simp
  next
    case (Inr x)
    show ?thesis
    proof (cases x)
      case None
      then have n: "\<not> recognized r" using Inr row_event_None_unrecognized by blast
      from None Inr Cons.prems have "add_rows f a m rs cal = Inr cal'" by simp
      from Cons.IH [OF this] n show ?thesis by simp
    next
      case (Some ev)
      then have y: "recognized r" using Inr row_event_Some_recognized by blast
      from Some Inr Cons.prems have "add_rows f a m rs (cal @ [ev]) = Inr cal'" by simp
      from Cons.IH [OF this] obtain evs where
        e: "cal' = (cal @ [ev]) @ evs"
           "list_all2 (\<lambda>r ev. row_event f a m r = Inr (Some ev)) (filter recognized rs) evs"
        by blast
      have "cal' = cal @ (ev # evs)" using e(1) by simp
      moreover have "list_all2 (\<lambda>r ev. row_event f a m r = Inr (Some ev))
                       (filter recognized (r # rs)) (ev # evs)"
        using y e(2) Some Inr by simp
      ultimately show ?thesis by blast
    qed
  qed
qed

lemma timedelta_minutes_total:
  assumes "timedelta_minutes x = Inr td"
  shows "days td * 86400 + seconds td = x * 60"
proof -
  have "td = \<lparr>days = (x * 60) div 86400, seconds = (x * 60) mod 86400\<rparr>"
    using assms
    by (simp add: timedelta_minutes_def mk_timedelta_def Let_def del: div_mult_mult1_if split: if_splits)
  then have "days td = (x * 60) div 86400" "seconds td = (x * 60) mod 86400" by simp_all
  then show ?thesis by (simp only: div_mult_mod_eq)
qed

lemma timedelta_minutes_in_range:
  assumes "0 \<le> m" and "m \<le> 1439999998560"
  shows "\<exists>td. timedelta_minutes (- m) = Inr td"
proof -
  have "- 999999999 \<le> (- (m * 60)) div 86400" using assms by linarith
  moreover have "(- (m * 60)) div 86400 \<le> 0" using assms by linarith
  ultimately have "\<bar>(- (m * 60)) div 86400\<bar> \<le> 999999999" by linarith
  then show ?thesis by (simp add: timedelta_minutes_def mk_timedelta_def Let_def)
qed

lemma notna_text: "notna v \<Longrightarrow> Some (str (the v)) = optional_text v"
  by (auto simp: notna_def optional_text_def split: option.splits cell.splits)

lemma not_notna_text: "\<not> notna v \<Longrightarrow> optional_text v = None"
  by (auto simp: notna_def optional_text_def split: option.splits cell.splits)

lemma datetime_less_combine: "datetime_less (combine d e) (combine d s) = time_less e s"
  by (simp add: datetime_less_def combine_def)

lemma fill_event_eq:
  assumes "map_of r ''subject'' = Some c" and "timedelta_minutes (- m) = Inr tr"
    and "\<not> datetime_less e s"
  shows "fill_event r s e m =
           Inr \<lparr>ev_name = Some (str c),
                ev_location = optional_text (map_of r ''location''),
                ev_description = optional_text (map_of r ''notes''),
                ev_begin = Some s, ev_end = Some e,
                ev_alarms = [\<lparr>trigger = tr, display_text = ''Reminder: '' @ str c\<rparr>]\<rparr>"
  using assms
  by (simp add: fill_event_def row_get_map_of Let_def Event_def get_or_None_def
      set_begin_def set_end_def notna_text not_notna_text)

lemma fill_event_end_before_begin:
  assumes "map_of r ''subject'' = Some c" and "datetime_less e s"
  shows "fill_event r s e m = Inl (ValueError ''End must be after begin'')"
  using assms
  by (simp add: fill_event_def row_get_map_of Let_def Event_def set_begin_def set_end_def)

lemma fill_event_overflow:
  assumes "map_of r ''subject'' = Some c" and "\<not> datetime_less e s"
    and "timedelta_minutes (- m) = Inl err"
  shows "fill_event r s e m = Inl err"
  using assms
  by (simp add: fill_event_def row_get_map_of Let_def Event_def set_begin_def set_end_def)

lemma fill_event_Inr:
  assumes "fill_event r s e m = Inr ev"
  shows "\<exists>c tr. map_of r ''subject'' = Some c \<and> timedelta_minutes (- m) = Inr tr \<and>
           \<not> datetime_less e s \<and>
           ev = \<lparr>ev_name = Some (str c),
                ev_location = optional_text (map_of r ''location''),
                ev_description = optional_text (map_of r ''notes''),
                ev_begin = Some s, ev_end = Some e,
                ev_alarms = [\<lparr>trigger = tr, display_text = ''Reminder: '' @ str c\<rparr>]\<rparr>"
proof -
  obtain c where c: "map_of r ''subject'' = Some c"
    using assms by (cases "map_of r ''subject''") (simp_all add: fill_event_def row_get_map_of)
  have n: "\<not> datetime_less e s"
    using fill_event_end_before_begin [OF c, of e s m] assms by auto
  obtain tr where tr: "timedelta_minutes (- m) = Inr tr"
    using fill_event_overflow [OF c n, of m] assms by (cases "timedelta_minutes (- m)") auto
  show ?thesis using fill_event_eq [OF c tr n] assms c tr n by simp
qed

lemma row_event_Some:
  assumes "valid_datetime a" and "row_event f a m r = Inr (Some ev)"
  shows "\<exists>k s e c tr. weekday_index r = Some k \<and> date a - weekday a + k \<le> MAXORDINAL \<and>
           parse_times f r = Inr (s, e) \<and> \<not> time_less e s \<and>
           map_of r ''subject'' = Some c \<and>
           timedelta_minutes (- m) = Inr tr \<and>
           ev = \<lparr>ev_name = Some (str c),
                ev_location = optional_text (map_of r ''location''),
                ev_description = optional_text (map_of r ''notes''),
                ev_begin = Some (combine (date a - weekday a + k) s),
                ev_end = Some (combine (date a - weekday a + k) e),
                ev_alarms = [\<lparr>trigger = tr, display_text = ''Reminder: '' @ str c\<rparr>]\<rparr>"
proof -
  have "recognized r" using assms(2) by (rule row_event_Some_recognized)
  then obtain k where k: "weekday_index r = Some k" by (auto simp: recognized_def)
  note eq = row_event_recognized [OF assms(1) k, of f m]
  have inr: "date a - weekday a + k \<le> MAXORDINAL"
    using eq assms(2) by (auto split: if_splits)
  obtain s e where p: "parse_times f r = Inr (s, e)"
    using eq assms(2) inr by (cases "parse_times f r") auto
  let ?d = "date a - weekday a + k"
  obtain ev' where f: "fill_event r (combine ?d s) (combine ?d e) m = Inr ev'"
    using eq assms(2) inr p by (cases "fill_event r (combine ?d s) (combine ?d e) m") auto
  have "ev' = ev" using eq assms(2) inr p f by simp
  with fill_event_Inr [OF f] k inr p show ?thesis
    unfolding datetime_less_combine by blast
qed

lemma row_event_ok:
  assumes "valid_datetime a" and "weekday_index r = Some k"
    and "date a - weekday a + k \<le> MAXORDINAL"
    and "parse_times f r = Inr (s, e)" and "map_of r ''subject'' = Some c"
    and "timedelta_minutes (- m) = Inr tr" and "\<not> time_less e s"
  shows "row_event f a m r =
           Inr (Some \<lparr>ev_name = Some (str c),
                ev_location = optional_text (map_of r ''location''),
                ev_description = optional_text (map_of r ''notes''),
                ev_begin = Some (combine (date a - weekday a + k) s),
                ev_end = Some (combine (date a - weekday a + k) e),
                ev_alarms = [\<lparr>trigger = tr, display_text = ''Reminder: '' @ str c\<rparr>]\<rparr>)"
proof -
  have n: "\<not> datetime_less (combine (date a - weekday a + k) e) (combine (date a - weekday a + k) s)"
    using assms(7) by (simp add: datetime_less_combine)
  show ?thesis
    using assms(3,4)
    by (simp add: row_event_recognized [OF assms(1,2)] fill_event_eq [OF assms(5,6) n])
qed

lemma row_event_end_before_begin:
  assumes "valid_datetime a" and "weekday_index r = Some k"
    and "date a - weekday a + k \<le> MAXORDINAL"
    and "parse_times f r = Inr (s, e)" and "map_of r ''subject'' = Some c"
    and "time_less e s"
  shows "row_event f a m r = Inl (ValueError ''End must be after begin'')"
proof -
  have n: "datetime_less (combine (date a - weekday a + k) e) (combine (date a - weekday a + k) s)"
    using assms(6) by (simp add: datetime_less_combine)
  show ?thesis
    using assms(3,4)
    by (simp add: row_event_recognized [OF assms(1,2)] fill_event_end_before_begin [OF assms(5) n])
qed

lemma weekday_map_names:
  "weekday_map s = Some k \<longleftrightarrow> (0 \<le> k \<and> k \<le> 6 \<and> weekday_names ! nat k = s)"
proof
  assume "weekday_map s = Some k"
  then show "0 \<le> k \<and> k \<le> 6 \<and> weekday_names ! nat k = s"
    by (auto simp: weekday_map_def weekday_names_def split: if_splits)
next
  assume h: "0 \<le> k \<and> k \<le> 6 \<and> weekday_names ! nat k = s"
  then consider "k = 0" | "k = 1" | "k = 2" | "k = 3" | "k = 4" | "k = 5" | "k = 6"
    by linarith
  then show "weekday_map s = Some k"
    using h by cases (auto simp: weekday_map_def weekday_names_def)
qed

lemma weekday_map_None: "weekday_map s = None \<longleftrightarrow> s \<notin> set weekday_names"
  by (simp add: weekday_map_def weekday_names_def)

lemma names_weekday_recognized: "names_weekday = recognized"
proof (rule ext)
  fix r
  have "s \<in> set weekday_names \<longleftrightarrow> weekday_map s \<noteq> None" for s
    by (auto simp: weekday_map_def weekday_names_def)
  then show "names_weekday r = recognized r"
    by (simp add: names_weekday_def recognized_def weekday_index_def split: option.splits)
qed

lemma weekday_index_names:
  assumes "map_of r ''day'' = Some d" and "k < 7"
    and "lower (strip (str d)) = weekday_names ! k"
  shows "weekday_index r = Some (int k)"
  using assms weekday_map_names [of "lower (strip (str d))" "int k"]
  by (simp add: weekday_index_def)

lemma weekday_index_Some:
  assumes "weekday_index r = Some j"
  shows "\<exists>d k. map_of r ''day'' = Some d \<and> k < 7 \<and>
           lower (strip (str d)) = weekday_names ! k \<and> j = int k"
proof -
  obtain d where d: "map_of r ''day'' = Some d" "weekday_map (lower (strip (str d))) = Some j"
    using assms by (auto simp: weekday_index_def split: option.splits)
  from d(2) have "0 \<le> j \<and> j \<le> 6 \<and> weekday_names ! nat j = lower (strip (str d))"
    by (simp add: weekday_map_names)
  then have "nat j < 7 \<and> lower (strip (str d)) = weekday_names ! nat j \<and> j = int (nat j)"
    by auto
  with d(1) show ?thesis by blast
qed

lemma add_rows_append:
  "add_rows f a m (xs @ ys) cal = then_do (add_rows f a m xs cal) (add_rows f a m ys)"
  by (induction xs arbitrary: cal) (auto split: sum.splits option.splits)

lemma add_rows_cong:
  assumes "\<And>r. r \<in> set rs \<Longrightarrow> row_event f a m r = row_event f a' m r"
  shows "add_rows f a m rs cal = add_rows f a' m rs cal"
  using assms by (induction rs arbitrary: cal) (auto split: sum.splits option.splits)


lemma row_event_same_week:
  assumes "valid_datetime a" and "valid_datetime a'"
    and "date a - weekday a = date a' - weekday a'"
  shows "row_event f a m r = row_event f a' m r"
proof (cases "weekday_index r")
  case None
  then show ?thesis
    by (auto simp: row_event_def row_get_def weekday_index_def split: option.splits)
next
  case (Some k)
  show ?thesis
    using assms(3)
    by (simp add: row_event_recognized [OF assms(1) Some] row_event_recognized [OF assms(2) Some])
qed

lemma create_calendar_rows:
  assumes "create_calendar_from_df f df a m = Inr evs"
  shows "list_all2 (\<lambda>r ev. row_event f a m r = Inr (Some ev))
           (filter recognized (iterrows df)) evs"
  using add_rows_Inr [of f a m "iterrows df" "[]" evs] assms
  by (simp add: create_calendar_from_df_def)


lemma parse_times_flexible:
  assumes "map_of r ''start'' = Some sc" and "map_of r ''end'' = Some ec"
    and "f (str sc) = Some ts" and "f (str ec) = Some te"
  shows "parse_times f r = Inr (time ts, time te)"
  using assms by (simp add: parse_times_def flexible_times_def row_get_map_of)

lemma parse_times_fallback:
  assumes "map_of r ''start'' = Some sc" and "map_of r ''end'' = Some ec"
    and "f (str sc) = None \<or> f (str ec) = None"
  shows "parse_times f r =
           (case strptime_HM (str sc) of
              Inl err \<Rightarrow> Inl err
            | Inr t1 \<Rightarrow>
                (case strptime_HM (str ec) of
                   Inl err \<Rightarrow> Inl err
                 | Inr t2 \<Rightarrow> Inr (t1, t2)))"
proof -
  have "flexible_times f r = None"
    using assms by (auto simp: flexible_times_def row_get_map_of split: option.splits)
  then show ?thesis
    using assms(1,2)
    by (simp add: parse_times_def strict_times_def row_get_map_of then_do_def
        split: sum.splits)
qed

lemma event_in_calendar:
  assumes "row_event f a m r = Inr (Some ev)" and "r \<in> set (iterrows df)"
    and "create_calendar_from_df f df a m = Inr evs"
  shows "ev \<in> set evs"
proof -
  have "recognized r" using assms(1) by (rule row_event_Some_recognized)
  then have "r \<in> set (filter recognized (iterrows df))" using assms(2) by simp
  then obtain i where i: "i < length (filter recognized (iterrows df))"
    "filter recognized (iterrows df) ! i = r"
    unfolding in_set_conv_nth by blast
  note rows = create_calendar_rows [OF assms(3)]
  have "row_event f a m r = Inr (Some (evs ! i))"
    using list_all2_nthD [OF rows i(1)] i(2) by simp
  then have "evs ! i = ev" using assms(1) by simp
  moreover have "i < length evs" using list_all2_lengthD [OF rows] i(1) by simp
  ultimately show ?thesis by (auto simp: in_set_conv_nth)
qed

lemma build_aborts:
  assumes "iterrows df = before @ r # after"
    and "add_rows f a m before [] = Inr cal"
    and "row_event f a m r = Inl err"
  shows "create_calendar_from_df f df a m = Inl err"
proof -
  have "add_rows f a m (r # after) cal = Inl err" using assms(3) by simp
  then show ?thesis
    unfolding create_calendar_from_df_def assms(1) add_rows_append assms(2) by simp
qed

subsection \<open>The example rows\<close>

lemma iterrows_timetable: "iterrows (timetable cs) = map series cs"
  by (simp add: iterrows_def timetable_def series_def)

lemma timetable_distinct: "distinct (columns (timetable cs))"
  by (simp add: timetable_def)

lemma series_distinct: "distinct (map fst (series [a, b, c, d, e, f]))"
  by (simp add: series_def)

lemma anchor_example_valid: "valid_datetime anchor_example"
  by (simp add: valid_datetime_def anchor_example_def MAXORDINAL_def valid_time_def clock_def)

lemma anchor_example_monday: "date anchor_example - weekday anchor_example = 738900"
  by code_simp

lemma reminder_30: "timedelta_minutes (- 30) = Inr \<lparr>days = - 1, seconds = 84600\<rparr>"
  by code_simp

lemma row_event_monday:
  "row_event to_datetime_sample anchor_example 30 (series row_monday) = Inr (Some event_monday)"
proof -
  have 1: "weekday_index (series row_monday) = Some 0" by code_simp
  have 2: "date anchor_example - weekday anchor_example + 0 \<le> MAXORDINAL" by code_simp
  have 3: "parse_times to_datetime_sample (series row_monday) = Inr (clock 9 0, clock 10 30)"
    by code_simp
  have 4: "map_of (series row_monday) ''subject'' = Some (Val ''Algorithms'')" by code_simp
  have 5: "optional_text (map_of (series row_monday) ''location'') = Some ''Room 4''"
    by code_simp
  have 6: "optional_text (map_of (series row_monday) ''notes'') = Some ''Bring laptop''"
    by code_simp
  have 7: "\<not> time_less (clock 10 30) (clock 9 0)" by (simp add: time_less_def clock_def)
  show ?thesis
    unfolding row_event_ok [OF anchor_example_valid 1 2 3 4 reminder_30 7] 5 6
    by (simp add: anchor_example_monday event_monday_def reminder_def combine_def)
qed

lemma row_event_wednesday:
  "row_event to_datetime_sample anchor_example 30 (series row_wednesday) =
     Inr (Some event_wednesday)"
proof -
  have 1: "weekday_index (series row_wednesday) = Some 2" by code_simp
  have 2: "date anchor_example - weekday anchor_example + 2 \<le> MAXORDINAL" by code_simp
  have 3: "parse_times to_datetime_sample (series row_wednesday) = Inr (clock 14 30, clock 16 0)"
    by code_simp
  have 4: "map_of (series row_wednesday) ''subject'' = Some (Val ''Databases'')" by code_simp
  have 5: "optional_text (map_of (series row_wednesday) ''location'') = None" by code_simp
  have 6: "optional_text (map_of (series row_wednesday) ''notes'') = None" by code_simp
  have 7: "\<not> time_less (clock 16 0) (clock 14 30)" by (simp add: time_less_def clock_def)
  show ?thesis
    unfolding row_event_ok [OF anchor_example_valid 1 2 3 4 reminder_30 7] 5 6
    by (simp add: anchor_example_monday event_wednesday_def reminder_def combine_def)
qed

lemma row_event_sunday:
  "row_event to_datetime_sample anchor_example 30 (series row_sunday) = Inr (Some event_sunday)"
proof -
  have 1: "weekday_index (series row_sunday) = Some 6" by code_simp
  have 2: "date anchor_example - weekday anchor_example + 6 \<le> MAXORDINAL" by code_simp
  have 3: "parse_times to_datetime_sample (series row_sunday) = Inr (clock 9 0, clock 10 30)"
    by code_simp
  have 4: "map_of (series row_sunday) ''subject'' = Some (Val ''Review'')" by code_simp
  have 5: "optional_text (map_of (series row_sunday) ''location'') = None" by code_simp
  have 6: "optional_text (map_of (series row_sunday) ''notes'') = None" by code_simp
  have 7: "\<not> time_less (clock 10 30) (clock 9 0)" by (simp add: time_less_def clock_def)
  show ?thesis
    unfolding row_event_ok [OF anchor_example_valid 1 2 3 4 reminder_30 7] 5 6
    by (simp add: anchor_example_monday event_sunday_def reminder_def combine_def)
qed

lemma row_event_dated:
  "row_event to_datetime_sample anchor_example 30 (series row_dated) = Inr (Some event_dated)"
proof -
  have 1: "weekday_index (series row_dated) = Some 2" by code_simp
  have 2: "date anchor_example - weekday anchor_example + 2 \<le> MAXORDINAL" by code_simp
  have 3: "parse_times to_datetime_sample (series row_dated) = Inr (clock 0 0, clock 10 30)"
    by code_simp
  have 4: "map_of (series row_dated) ''subject'' = Some (Val ''Lab'')" by code_simp
  have 5: "optional_text (map_of (series row_dated) ''location'') = None" by code_simp
  have 6: "optional_text (map_of (series row_dated) ''notes'') = None" by code_simp
  have 7: "\<not> time_less (clock 10 30) (clock 0 0)" by (simp add: time_less_def clock_def)
  show ?thesis
    unfolding row_event_ok [OF anchor_example_valid 1 2 3 4 reminder_30 7] 5 6
    by (simp add: anchor_example_monday event_dated_def reminder_def combine_def)
qed

lemma parse_times_backwards:
  "parse_times to_datetime_sample (series row_backwards) = Inr (clock 14 30, clock 9 0)"
  by code_simp

lemma row_event_backwards:
  "row_event to_datetime_sample anchor_example 30 (series row_backwards) =
     Inl (ValueError ''End must be after begin'')"
proof -
  have 1: "weekday_index (series row_backwards) = Some 4" by code_simp
  have 2: "date anchor_example - weekday anchor_example + 4 \<le> MAXORDINAL" by code_simp
  have 4: "map_of (series row_backwards) ''subject'' = Some (Val ''Review'')" by code_simp
  have 5: "time_less (clock 9 0) (clock 14 30)" by (simp add: time_less_def clock_def)
  show ?thesis
    by (rule row_event_end_before_begin [OF anchor_example_valid 1 2 parse_times_backwards 4 5])
qed

lemma parse_times_dated_end:
  "parse_times to_datetime_sample (series row_dated_end) = Inr (clock 10 30, clock 0 0)"
  by code_simp

lemma row_event_dated_end:
  "row_event to_datetime_sample anchor_example 30 (series row_dated_end) =
     Inl (ValueError ''End must be after begin'')"
proof -
  have 1: "weekday_index (series row_dated_end) = Some 2" by code_simp
  have 2: "date anchor_example - weekday anchor_example + 2 \<le> MAXORDINAL" by code_simp
  have 4: "map_of (series row_dated_end) ''subject'' = Some (Val ''Lab'')" by code_simp
  have 5: "time_less (clock 0 0) (clock 10 30)" by (simp add: time_less_def clock_def)
  show ?thesis
    by (rule row_event_end_before_begin [OF anchor_example_valid 1 2 parse_times_dated_end 4 5])
qed

lemma row_event_funday:
  "row_event to_datetime_sample anchor_example 30 (series row_funday) = Inr None"
proof -
  have 1: "map_of (series row_funday) ''day'' = Some (Val ''Funday'')" by code_simp
  have 2: "weekday_map (lower (strip (str (Val ''Funday'')))) = None" by code_simp
  show ?thesis by (rule row_event_unrecognized [OF 1 2])
qed

lemma row_event_bad_end:
  "row_event to_datetime_sample anchor_example 30 (series row_bad_end) =
     Inl (StrptimeUnconverted ''PM'')"
proof -
  have 1: "weekday_index (series row_bad_end) = Some 1" by code_simp
  have 2: "date anchor_example - weekday anchor_example + 1 \<le> MAXORDINAL" by code_simp
  have 3: "parse_times to_datetime_sample (series row_bad_end) = Inl (StrptimeUnconverted ''PM'')"
    by code_simp
  show ?thesis
    unfolding row_event_recognized [OF anchor_example_valid 1] using 2 3 by simp
qed

lemma add_rows_example_monday:
  "add_rows to_datetime_sample anchor_example 30 [series row_monday] [] = Inr [event_monday]"
  by (simp add: row_event_monday)

lemma recognized_examples:
  "recognized (series row_monday)" "recognized (series row_wednesday)"
  "recognized (series row_backwards)" "recognized (series row_dated)"
  "recognized (series row_bad_end)" "\<not> recognized (series row_funday)"
  by code_simp+

lemma recognized_more_examples:
  "recognized (series row_sunday)" "recognized (series row_dated_end)"
  by code_simp+

lemma example_build:
  "create_calendar_from_df to_datetime_sample
     (timetable [row_monday, row_funday, row_wednesday]) anchor_example 30 =
   Inr [event_monday, event_wednesday]"
  by (simp add: create_calendar_from_df_def iterrows_timetable row_event_monday
      row_event_funday row_event_wednesday)

lemma example_build_week:
  "create_calendar_from_df to_datetime_sample
     (timetable [row_monday, row_funday, row_wednesday, row_sunday]) anchor_example 30 =
   Inr [event_monday, event_wednesday, event_sunday]"
  by (simp add: create_calendar_from_df_def iterrows_timetable row_event_monday
      row_event_funday row_event_wednesday row_event_sunday)

lemma example_build_dated:
  "create_calendar_from_df to_datetime_sample
     (timetable [row_monday, row_dated]) anchor_example 30 =
   Inr [event_monday, event_dated]"
  by (simp add: create_calendar_from_df_def iterrows_timetable row_event_monday
      row_event_dated)

lemma example_build_bad_end:
  "create_calendar_from_df to_datetime_sample
     (timetable [row_monday, row_bad_end, row_wednesday]) anchor_example 30 =
   Inl (StrptimeUnconverted ''PM'')"
  by (simp add: create_calendar_from_df_def iterrows_timetable row_event_monday
      row_event_bad_end)

section \<open>The required columns (parser)\<close>

lemma check_required_present:
  "set cols \<subseteq> set (columns df) \<Longrightarrow> check_required df cols = Inr df"
  by (induction cols) simp_all

lemma check_required_missing:
  "\<not> set cols \<subseteq> set (columns df) \<Longrightarrow>
     \<exists>col \<in> set cols. col \<notin> set (columns df) \<and>
        check_required df cols = Inl (ValueError (missing_column col))"
  by (induction cols) auto

text \<open>
  C4. The header is compared after each column name is trimmed and lowercased. When the
  four names \<open>day\<close>, \<open>start\<close>, \<open>end\<close>, \<open>subject\<close> are all among the normalised names, in
  whatever order, the parser returns the frame with the normalised header and raises
  nothing. When one is lacking, the parser raises the error whose message names a
  required column that is lacking and shows the expected header.
\<close>

theorem parse_timetable_csv_required_columns:
  "(set required \<subseteq> set (map (\<lambda>c. lower (strip c)) (columns raw)) \<longrightarrow>
      parse_timetable_csv raw = Inr (normalise_columns raw)) \<and>
   (\<not> set required \<subseteq> set (map (\<lambda>c. lower (strip c)) (columns raw)) \<longrightarrow>
      (\<exists>col \<in> set required.
         col \<notin> set (map (\<lambda>c. lower (strip c)) (columns raw)) \<and>
         parse_timetable_csv raw =
           Inl (ValueError (''Missing required column: '' @ col
                  @ '' (example CSV header: Day, Start, End, Subject, Location)''))))"
proof -
  have c: "columns (normalise_columns raw) = map (\<lambda>c. lower (strip c)) (columns raw)"
    by (simp add: normalise_columns_def)
  show ?thesis
    using check_required_present [of required "normalise_columns raw"]
      check_required_missing [of required "normalise_columns raw"]
    unfolding parse_timetable_csv_def c missing_column_def by blast
qed

theorem parse_timetable_csv_required_columns_witness:
  "set required \<subseteq> set (map (\<lambda>c. lower (strip c)) (columns header_example)) \<and>
   parse_timetable_csv header_example = Inr (normalise_columns header_example) \<and>
   \<not> set required \<subseteq> set (map (\<lambda>c. lower (strip c)) (columns header_no_end)) \<and>
   parse_timetable_csv header_no_end =
     Inl (ValueError
       ''Missing required column: end (example CSV header: Day, Start, End, Subject, Location)'')"
proof -
  have p: "set required \<subseteq> set (map (\<lambda>c. lower (strip c)) (columns header_example))"
    by code_simp
  have q: "\<not> set required \<subseteq> set (map (\<lambda>c. lower (strip c)) (columns header_no_end))"
    by code_simp
  have n: "map (\<lambda>c. lower (strip c)) (columns header_no_end) =
             [''day'', ''start'', ''finish'', ''subject'']"
    by code_simp
  have e: "\<And>col. col \<in> set required \<Longrightarrow>
             col \<notin> set (map (\<lambda>c. lower (strip c)) (columns header_no_end)) \<Longrightarrow> col = ''end''"
    by (auto simp: n required_def)
  from parse_timetable_csv_required_columns [of header_example] p
  have 1: "parse_timetable_csv header_example = Inr (normalise_columns header_example)"
    by blast
  from parse_timetable_csv_required_columns [of header_no_end] q e
  have 2: "parse_timetable_csv header_no_end =
     Inl (ValueError
       ''Missing required column: end (example CSV header: Day, Start, End, Subject, Location)'')"
    by auto
  from p q 1 2 show ?thesis by blast
qed

section \<open>The target week (builder)\<close>

text \<open>
  C1. For a well-formed anchor, \<open>week_start\<close> returns a datetime whose weekday is 0
  (Monday), on or before the anchor and less than seven days before it: the anchor less
  its weekday offset. In every calendar the builder returns for a table with distinct
  column labels, the events are those of the rows that name a weekday, in order, and
  each event begins and ends on the day of \<open>week_start\<close> plus the index of the row's
  weekday, counted from Monday = 0 to Sunday = 6.
\<close>

theorem week_start_monday_and_event_dates:
  assumes "valid_datetime anchor" and "distinct (columns df)"
  shows "\<exists>monday. week_start anchor = Inr monday \<and> weekday monday = 0 \<and>
           date monday = date anchor - weekday anchor \<and>
           date monday \<le> date anchor \<and> date anchor - date monday < 7 \<and>
           (create_calendar_from_df f df anchor m = Inr evs \<longrightarrow>
              list_all2 (\<lambda>r ev. \<exists>d k b e. map_of r ''day'' = Some d \<and> k < 7 \<and>
                            lower (strip (str d)) =
                              [''monday'', ''tuesday'', ''wednesday'', ''thursday'',
                               ''friday'', ''saturday'', ''sunday''] ! k \<and>
                            ev_begin ev = Some b \<and> date b = date monday + int k \<and>
                            ev_end ev = Some e \<and> date e = date monday + int k)
                (filter names_weekday (iterrows df)) evs)"
proof -
  let ?monday = "anchor\<lparr>date := date anchor - weekday anchor\<rparr>"
  let ?P = "\<lambda>r ev. \<exists>d k b e. map_of r ''day'' = Some d \<and> k < 7 \<and>
                            lower (strip (str d)) =
                              [''monday'', ''tuesday'', ''wednesday'', ''thursday'',
                               ''friday'', ''saturday'', ''sunday''] ! k \<and>
                            ev_begin ev = Some b \<and> date b = date ?monday + int k \<and>
                            ev_end ev = Some e \<and> date e = date ?monday + int k"
  have w: "0 \<le> weekday anchor" "weekday anchor < 7" using weekday_range by simp_all
  have rows: "list_all2 ?P (filter names_weekday (iterrows df)) evs"
    if b: "create_calendar_from_df f df anchor m = Inr evs"
    unfolding names_weekday_recognized
  proof (rule list_all2_mono [OF create_calendar_rows [OF b]])
    fix r ev
    assume "row_event f anchor m r = Inr (Some ev)"
    from row_event_Some [OF assms(1) this] obtain j s e where
      j: "weekday_index r = Some j"
      and b: "ev_begin ev = Some (combine (date anchor - weekday anchor + j) s)"
      and e: "ev_end ev = Some (combine (date anchor - weekday anchor + j) e)"
      by force
    from weekday_index_Some [OF j] obtain d k where
      "map_of r ''day'' = Some d" "k < 7" "lower (strip (str d)) = weekday_names ! k"
      "j = int k"
      by blast
    then show "?P r ev"
      using b e unfolding weekday_names_def by (simp add: combine_def)
  qed
  have "week_start anchor = Inr ?monday" by (rule week_start_valid [OF assms(1)])
  moreover have "weekday ?monday = 0" by (rule monday_weekday)
  ultimately show ?thesis using w rows by (intro exI [of _ ?monday]) simp
qed

theorem week_start_monday_and_event_dates_witness:
  "valid_datetime anchor_example \<and>
   distinct (columns (timetable [row_monday, row_funday, row_wednesday, row_sunday])) \<and>
   create_calendar_from_df to_datetime_sample
     (timetable [row_monday, row_funday, row_wednesday, row_sunday]) anchor_example 30 =
     Inr [event_monday, event_wednesday, event_sunday] \<and>
   filter names_weekday (iterrows (timetable [row_monday, row_funday, row_wednesday, row_sunday])) =
     [series row_monday, series row_wednesday, series row_sunday] \<and>
   (\<exists>monday. week_start anchor_example = Inr monday \<and> weekday monday = 0 \<and>
      date monday = 738900 \<and>
      list_all2 (\<lambda>r ev. \<exists>d k b e. map_of r ''day'' = Some d \<and> k < 7 \<and>
                    lower (strip (str d)) =
                      [''monday'', ''tuesday'', ''wednesday'', ''thursday'',
                       ''friday'', ''saturday'', ''sunday''] ! k \<and>
                    ev_begin ev = Some b \<and> date b = date monday + int k \<and>
                    ev_end ev = Some e \<and> date e = date monday + int k)
        [series row_monday, series row_wednesday, series row_sunday]
        [event_monday, event_wednesday, event_sunday])"
proof -
  let ?df = "timetable [row_monday, row_funday, row_wednesday, row_sunday]"
  have f: "filter names_weekday (iterrows ?df) =
             [series row_monday, series row_wednesday, series row_sunday]"
    unfolding names_weekday_recognized
    using recognized_examples recognized_more_examples by (simp add: iterrows_timetable)
  from week_start_monday_and_event_dates [where f = to_datetime_sample and m = 30
      and evs = "[event_monday, event_wednesday, event_sunday]",
      OF anchor_example_valid
        timetable_distinct [of "[row_monday, row_funday, row_wednesday, row_sunday]"]]
    example_build_week
  have "\<exists>monday. week_start anchor_example = Inr monday \<and> weekday monday = 0 \<and>
      date monday = 738900 \<and>
      list_all2 (\<lambda>r ev. \<exists>d k b e. map_of r ''day'' = Some d \<and> k < 7 \<and>
                    lower (strip (str d)) =
                      [''monday'', ''tuesday'', ''wednesday'', ''thursday'',
                       ''friday'', ''saturday'', ''sunday''] ! k \<and>
                    ev_begin ev = Some b \<and> date b = date monday + int k \<and>
                    ev_end ev = Some e \<and> date e = date monday + int k)
        [series row_monday, series row_wednesday, series row_sunday]
        [event_monday, event_wednesday, event_sunday]"
    unfolding f anchor_example_monday by auto
  with anchor_example_valid timetable_distinct example_build_week f show ?thesis by blast
qed

section \<open>One event for each valid row (builder)\<close>




section \<open>Rows with an unrecognized day (builder)\<close>

text \<open>
  C5. A row whose day text, trimmed and lowercased, is not one of the seven weekday
  names gives no event and raises nothing, and the build goes on: the builder's result
  on a table holding such a row is its result on the table without the row.
\<close>

theorem unrecognized_day_is_skipped:
  assumes "map_of r ''day'' = Some d"
    and "lower (strip (str d)) \<notin> set [''monday'', ''tuesday'', ''wednesday'', ''thursday'',
           ''friday'', ''saturday'', ''sunday'']"
    and "iterrows df = before @ r # after"
    and "iterrows df' = before @ after"
  shows "row_event f anchor m r = Inr None \<and>
         create_calendar_from_df f df anchor m = create_calendar_from_df f df' anchor m"
proof -
  have "weekday_map (lower (strip (str d))) = None"
    using assms(2) by (simp add: weekday_map_def)
  from row_event_unrecognized [OF assms(1) this]
  have n: "row_event f anchor m r = Inr None" .
  have "add_rows f anchor m (r # after) = add_rows f anchor m after"
    using n by (intro ext) simp
  then have "add_rows f anchor m (before @ r # after) [] = add_rows f anchor m (before @ after) []"
    by (simp only: add_rows_append)
  then show ?thesis
    using n assms(3,4) by (simp add: create_calendar_from_df_def)
qed

theorem unrecognized_day_is_skipped_witness:
  "map_of (series row_funday) ''day'' = Some (Val ''Funday'') \<and>
   lower (strip (str (Val ''Funday''))) \<notin> set [''monday'', ''tuesday'', ''wednesday'',
      ''thursday'', ''friday'', ''saturday'', ''sunday''] \<and>
   row_event to_datetime_sample anchor_example 30 (series row_funday) = Inr None \<and>
   create_calendar_from_df to_datetime_sample
     (timetable [row_monday, row_funday, row_wednesday]) anchor_example 30 =
   create_calendar_from_df to_datetime_sample
     (timetable [row_monday, row_wednesday]) anchor_example 30 \<and>
   create_calendar_from_df to_datetime_sample
     (timetable [row_monday, row_wednesday]) anchor_example 30 =
     Inr [event_monday, event_wednesday]"
proof -
  have 1: "map_of (series row_funday) ''day'' = Some (Val ''Funday'')" by code_simp
  have 2: "lower (strip (str (Val ''Funday''))) \<notin> set [''monday'', ''tuesday'',
      ''wednesday'', ''thursday'', ''friday'', ''saturday'', ''sunday'']"
    by code_simp
  have 3: "iterrows (timetable [row_monday, row_funday, row_wednesday]) =
             [series row_monday] @ series row_funday # [series row_wednesday]"
    by (simp add: iterrows_timetable)
  have 4: "iterrows (timetable [row_monday, row_wednesday]) =
             [series row_monday] @ [series row_wednesday]"
    by (simp add: iterrows_timetable)
  from unrecognized_day_is_skipped [OF 1 2 3 4, of to_datetime_sample anchor_example 30]
    1 2 example_build
  show ?thesis by simp
qed

section \<open>The reminder alarm (builder)\<close>

text \<open>
  C6. Every event of a calendar the builder returns has exactly one alarm. Its trigger is
  the duration of minus \<open>alarm_minutes\<close> minutes, relative to the start of the event
  (\<open>alarm_minutes\<close> minutes before it when the offset is not negative), and its display
  text is \<open>Reminder: \<close> followed by the title of the event.
\<close>

theorem one_alarm_before_start:
  assumes "valid_datetime anchor"
    and "create_calendar_from_df f df anchor m = Inr evs"
    and "ev \<in> set evs"
    and "0 \<le> m"
  shows "\<exists>al title. ev_alarms ev = [al] \<and> ev_name ev = Some title \<and>
           display_text al = ''Reminder: '' @ title \<and>
           days (trigger al) * 86400 + seconds (trigger al) = - (m * 60)"
proof -
  from create_calendar_rows [OF assms(2)] assms(3)
  obtain r where "row_event f anchor m r = Inr (Some ev)"
    by (auto simp: list_all2_conv_all_nth in_set_conv_nth)
  from row_event_Some [OF assms(1) this] obtain c tr where
    tr: "timedelta_minutes (- m) = Inr tr"
    and ev: "ev_name ev = Some (str c)"
      "ev_alarms ev = [\<lparr>trigger = tr, display_text = ''Reminder: '' @ str c\<rparr>]"
    by force
  from timedelta_minutes_total [OF tr] ev show ?thesis by simp
qed

theorem one_alarm_before_start_witness:
  "valid_datetime anchor_example \<and>
   create_calendar_from_df to_datetime_sample
     (timetable [row_monday, row_funday, row_wednesday]) anchor_example 30 =
     Inr [event_monday, event_wednesday] \<and>
   event_wednesday \<in> set [event_monday, event_wednesday] \<and> (0::int) \<le> 30 \<and>
   (\<exists>al title. ev_alarms event_wednesday = [al] \<and> ev_name event_wednesday = Some title \<and>
      display_text al = ''Reminder: '' @ title \<and>
      days (trigger al) * 86400 + seconds (trigger al) = - (30 * 60))"
  using one_alarm_before_start [OF anchor_example_valid example_build,
      of event_wednesday]
    anchor_example_valid example_build
  by simp

section \<open>The anchor within its week (builder)\<close>

text \<open>
  C7. Two well-formed anchors with the same week start (the same date less the weekday
  offset), at whatever times of day, give the same result: the same events with the same
  dates, times, titles and alarms, or the same error.
\<close>

theorem same_week_same_calendar:
  assumes "valid_datetime anchor" and "valid_datetime anchor'"
    and "date anchor - weekday anchor = date anchor' - weekday anchor'"
  shows "create_calendar_from_df f df anchor m = create_calendar_from_df f df anchor' m"
  unfolding create_calendar_from_df_def
  by (rule add_rows_cong) (rule row_event_same_week [OF assms])

theorem same_week_same_calendar_witness:
  "valid_datetime anchor_example \<and> valid_datetime anchor_sunday \<and>
   date anchor_example - weekday anchor_example = date anchor_sunday - weekday anchor_sunday \<and>
   date anchor_example \<noteq> date anchor_sunday \<and>
   create_calendar_from_df to_datetime_sample
     (timetable [row_monday, row_funday, row_wednesday]) anchor_sunday 30 =
     Inr [event_monday, event_wednesday]"
proof -
  have v: "valid_datetime anchor_sunday"
    by (simp add: valid_datetime_def anchor_sunday_def MAXORDINAL_def valid_time_def clock_def)
  have w: "date anchor_example - weekday anchor_example = date anchor_sunday - weekday anchor_sunday"
    by (simp add: anchor_example_def anchor_sunday_def weekday_def)
  have n: "date anchor_example \<noteq> date anchor_sunday"
    by (simp add: anchor_example_def anchor_sunday_def)
  have "create_calendar_from_df to_datetime_sample
     (timetable [row_monday, row_funday, row_wednesday]) anchor_sunday 30 =
     Inr [event_monday, event_wednesday]"
    using same_week_same_calendar [OF anchor_example_valid v w, of to_datetime_sample
      "timetable [row_monday, row_funday, row_wednesday]" 30]
    by (simp only: example_build)
  with anchor_example_valid v w n show ?thesis by blast
qed

section \<open>Optional fields (builder)\<close>

text \<open>
  C8. In every calendar the builder returns, the location of an event is set exactly
  when the row has a \<open>location\<close> cell that is not null, and is then the text of that
  cell; when the column is absent or the cell is null the attribute stays unset (it is
  not the empty text). The same holds of the description and the \<open>notes\<close> cell.
\<close>

theorem optional_fields_unset_when_absent:
  assumes "valid_datetime anchor"
    and "create_calendar_from_df f df anchor m = Inr evs"
  shows "list_all2 (\<lambda>r ev.
            (map_of r ''location'' = None \<or> map_of r ''location'' = Some NaN
               \<longrightarrow> ev_location ev = None) \<and>
            (\<forall>s. map_of r ''location'' = Some (Val s) \<longrightarrow> ev_location ev = Some s) \<and>
            (map_of r ''notes'' = None \<or> map_of r ''notes'' = Some NaN
               \<longrightarrow> ev_description ev = None) \<and>
            (\<forall>s. map_of r ''notes'' = Some (Val s) \<longrightarrow> ev_description ev = Some s))
          (filter recognized (iterrows df)) evs"
proof (rule list_all2_mono [OF create_calendar_rows [OF assms(2)]])
  fix r ev
  assume "row_event f anchor m r = Inr (Some ev)"
  from row_event_Some [OF assms(1) this]
  have "ev_location ev = optional_text (map_of r ''location'')"
    and "ev_description ev = optional_text (map_of r ''notes'')"
    by force+
  then show "(map_of r ''location'' = None \<or> map_of r ''location'' = Some NaN
               \<longrightarrow> ev_location ev = None) \<and>
            (\<forall>s. map_of r ''location'' = Some (Val s) \<longrightarrow> ev_location ev = Some s) \<and>
            (map_of r ''notes'' = None \<or> map_of r ''notes'' = Some NaN
               \<longrightarrow> ev_description ev = None) \<and>
            (\<forall>s. map_of r ''notes'' = Some (Val s) \<longrightarrow> ev_description ev = Some s)"
    by (auto simp: optional_text_def)
qed

theorem optional_fields_unset_when_absent_witness:
  "valid_datetime anchor_example \<and>
   create_calendar_from_df to_datetime_sample
     (timetable [row_monday, row_funday, row_wednesday]) anchor_example 30 =
     Inr [event_monday, event_wednesday] \<and>
   map_of (series row_wednesday) ''location'' = Some NaN \<and>
   ev_location event_wednesday = None \<and>
   map_of (series row_monday) ''location'' = Some (Val ''Room 4'') \<and>
   ev_location event_monday = Some ''Room 4'' \<and>
   list_all2 (\<lambda>r ev.
            (map_of r ''location'' = None \<or> map_of r ''location'' = Some NaN
               \<longrightarrow> ev_location ev = None) \<and>
            (\<forall>s. map_of r ''location'' = Some (Val s) \<longrightarrow> ev_location ev = Some s) \<and>
            (map_of r ''notes'' = None \<or> map_of r ''notes'' = Some NaN
               \<longrightarrow> ev_description ev = None) \<and>
            (\<forall>s. map_of r ''notes'' = Some (Val s) \<longrightarrow> ev_description ev = Some s))
     (filter recognized (iterrows (timetable [row_monday, row_funday, row_wednesday])))
     [event_monday, event_wednesday]"
proof -
  have 1: "map_of (series row_wednesday) ''location'' = Some NaN" by code_simp
  have 2: "map_of (series row_monday) ''location'' = Some (Val ''Room 4'')" by code_simp
  have 3: "filter recognized (iterrows (timetable [row_monday, row_funday, row_wednesday])) =
             [series row_monday, series row_wednesday]"
    using recognized_examples by (simp add: iterrows_timetable)
  note t = optional_fields_unset_when_absent [OF anchor_example_valid example_build]
  from t have "ev_location event_wednesday = None" "ev_location event_monday = Some ''Room 4''"
    unfolding 3 using 1 2 by simp_all
  with t 1 2 anchor_example_valid example_build show ?thesis by blast
qed

section \<open>End before start (builder)\<close>

text \<open>
  C9, as the code has it. The builder itself compares the start and the end of a row
  nowhere; the Event does, when its end is assigned. Take a row with distinct labels
  that names a weekday, has a subject and times that parse, say to \<open>s\<close> and \<open>e\<close>, in a
  table whose earlier rows raise nothing (the day within the range of dates, the alarm
  offset within the range of \<open>timedelta\<close>). When \<open>e\<close> is not before \<open>s\<close>, the row gives
  one event, which begins at \<open>s\<close> and ends at \<open>e\<close> on the day of the row, and the event is
  in every calendar the builder returns for the table. When \<open>e\<close> is before \<open>s\<close>, the row
  raises "End must be after begin" and that error is the result of the whole build.
\<close>

theorem end_before_start_aborts_the_build:
  assumes "valid_datetime anchor"
    and "distinct (map fst r)"
    and "map_of r ''day'' = Some d" and "k < 7"
    and "lower (strip (str d)) = weekday_names ! k"
    and "date anchor - weekday anchor + int k \<le> MAXORDINAL"
    and "parse_times f r = Inr (s, e)"
    and "map_of r ''subject'' = Some c"
    and "0 \<le> m" and "m \<le> 1439999998560"
    and "iterrows df = before @ r # after"
    and "add_rows f anchor m before [] = Inr cal"
  shows "(\<not> time_less e s \<longrightarrow>
            (\<exists>ev. row_event f anchor m r = Inr (Some ev) \<and>
               ev_begin ev = Some \<lparr>date = date anchor - weekday anchor + int k, time = s\<rparr> \<and>
               ev_end ev = Some \<lparr>date = date anchor - weekday anchor + int k, time = e\<rparr> \<and>
               (create_calendar_from_df f df anchor m = Inr evs \<longrightarrow> ev \<in> set evs))) \<and>
         (time_less e s \<longrightarrow>
            row_event f anchor m r = Inl (ValueError ''End must be after begin'') \<and>
            create_calendar_from_df f df anchor m = Inl (ValueError ''End must be after begin''))"
proof (intro conjI impI)
  note k = weekday_index_names [OF assms(3,4,5)]
  obtain tr where tr: "timedelta_minutes (- m) = Inr tr"
    using timedelta_minutes_in_range [OF assms(9,10)] by blast
  have r: "r \<in> set (iterrows df)" using assms(11) by simp
  {
    assume n: "\<not> time_less e s"
    note ok = row_event_ok [OF assms(1) k assms(6,7,8) tr n]
    then obtain ev where ev: "row_event f anchor m r = Inr (Some ev)"
      "ev_begin ev = Some (combine (date anchor - weekday anchor + int k) s)"
      "ev_end ev = Some (combine (date anchor - weekday anchor + int k) e)"
      by simp
    have "create_calendar_from_df f df anchor m = Inr evs \<longrightarrow> ev \<in> set evs"
      using event_in_calendar [OF ev(1) r] by blast
    then show "\<exists>ev. row_event f anchor m r = Inr (Some ev) \<and>
               ev_begin ev = Some \<lparr>date = date anchor - weekday anchor + int k, time = s\<rparr> \<and>
               ev_end ev = Some \<lparr>date = date anchor - weekday anchor + int k, time = e\<rparr> \<and>
               (create_calendar_from_df f df anchor m = Inr evs \<longrightarrow> ev \<in> set evs)"
      using ev by (auto simp: combine_def)
  }
  {
    assume l: "time_less e s"
    show re: "row_event f anchor m r = Inl (ValueError ''End must be after begin'')"
      by (rule row_event_end_before_begin [OF assms(1) k assms(6,7,8) l])
    show "create_calendar_from_df f df anchor m = Inl (ValueError ''End must be after begin'')"
      by (rule build_aborts [OF assms(11,12) re])
  }
qed

theorem end_before_start_aborts_the_build_witness:
  "valid_datetime anchor_example \<and>
   parse_times to_datetime_sample (series row_wednesday) = Inr (clock 14 30, clock 16 0) \<and>
   \<not> time_less (clock 16 0) (clock 14 30) \<and>
   create_calendar_from_df to_datetime_sample
     (timetable [row_monday, row_funday, row_wednesday]) anchor_example 30 =
     Inr [event_monday, event_wednesday] \<and>
   (\<exists>ev. row_event to_datetime_sample anchor_example 30 (series row_wednesday) = Inr (Some ev) \<and>
      ev_begin ev = Some \<lparr>date = 738902, time = clock 14 30\<rparr> \<and>
      ev_end ev = Some \<lparr>date = 738902, time = clock 16 0\<rparr> \<and>
      ev \<in> set [event_monday, event_wednesday]) \<and>
   parse_times to_datetime_sample (series row_backwards) = Inr (clock 14 30, clock 9 0) \<and>
   time_less (clock 9 0) (clock 14 30) \<and>
   add_rows to_datetime_sample anchor_example 30 [series row_monday] [] = Inr [event_monday] \<and>
   row_event to_datetime_sample anchor_example 30 (series row_backwards) =
     Inl (ValueError ''End must be after begin'') \<and>
   create_calendar_from_df to_datetime_sample
     (timetable [row_monday, row_backwards, row_wednesday]) anchor_example 30 =
     Inl (ValueError ''End must be after begin'')"
proof -
  have a1: "distinct (map fst (series row_wednesday))"
    unfolding row_wednesday_def by (rule series_distinct)
  have a2: "map_of (series row_wednesday) ''day'' = Some (Val ''Wednesday'')" by code_simp
  have a3: "lower (strip (str (Val ''Wednesday''))) = weekday_names ! 2" by code_simp
  have a4: "date anchor_example - weekday anchor_example + int 2 \<le> MAXORDINAL"
    by (simp add: anchor_example_monday MAXORDINAL_def)
  have a5: "parse_times to_datetime_sample (series row_wednesday) = Inr (clock 14 30, clock 16 0)"
    by code_simp
  have a6: "map_of (series row_wednesday) ''subject'' = Some (Val ''Databases'')" by code_simp
  have a7: "iterrows (timetable [row_monday, row_funday, row_wednesday]) =
              [series row_monday, series row_funday] @ series row_wednesday # []"
    by (simp add: iterrows_timetable)
  have a8: "add_rows to_datetime_sample anchor_example 30
              [series row_monday, series row_funday] [] = Inr [event_monday]"
    by (simp add: row_event_monday row_event_funday)
  have a9: "\<not> time_less (clock 16 0) (clock 14 30)" by (simp add: time_less_def clock_def)
  have a10: "date anchor_example - weekday anchor_example + int 2 = 738902"
    by (simp add: anchor_example_monday)
  from end_before_start_aborts_the_build [where m = 30 and evs = "[event_monday, event_wednesday]",
      OF anchor_example_valid a1 a2 _ a3 a4 a5 a6 _ _ a7 a8] a9 example_build
  have w: "\<exists>ev. row_event to_datetime_sample anchor_example 30 (series row_wednesday) = Inr (Some ev) \<and>
      ev_begin ev = Some \<lparr>date = 738902, time = clock 14 30\<rparr> \<and>
      ev_end ev = Some \<lparr>date = 738902, time = clock 16 0\<rparr> \<and>
      ev \<in> set [event_monday, event_wednesday]"
    unfolding a10 by simp
  have b1: "distinct (map fst (series row_backwards))"
    unfolding row_backwards_def by (rule series_distinct)
  have b2: "map_of (series row_backwards) ''day'' = Some (Val '' friday '')" by code_simp
  have b3: "lower (strip (str (Val '' friday ''))) = weekday_names ! 4" by code_simp
  have b4: "date anchor_example - weekday anchor_example + int 4 \<le> MAXORDINAL"
    by (simp add: anchor_example_monday MAXORDINAL_def)
  have b6: "map_of (series row_backwards) ''subject'' = Some (Val ''Review'')" by code_simp
  have b7: "iterrows (timetable [row_monday, row_backwards, row_wednesday]) =
              [series row_monday] @ series row_backwards # [series row_wednesday]"
    by (simp add: iterrows_timetable)
  have b9: "time_less (clock 9 0) (clock 14 30)" by (simp add: time_less_def clock_def)
  from end_before_start_aborts_the_build [where m = 30,
      OF anchor_example_valid b1 b2 _ b3 b4 parse_times_backwards b6 _ _ b7
        add_rows_example_monday] b9
  have b: "row_event to_datetime_sample anchor_example 30 (series row_backwards) =
     Inl (ValueError ''End must be after begin'')"
    "create_calendar_from_df to_datetime_sample
     (timetable [row_monday, row_backwards, row_wednesday]) anchor_example 30 =
     Inl (ValueError ''End must be after begin'')"
    by simp_all
  from anchor_example_valid a5 a9 example_build w parse_times_backwards b9
    add_rows_example_monday b
  show ?thesis by blast
qed

text \<open>
  C9, counterexample. The second row of the table is Friday, \<open>2:30PM\<close> to \<open>9:00AM\<close>:
  it names a weekday and both times parse, the end before the start. No event is
  emitted for it: the build raises "End must be after begin".
\<close>

theorem end_before_start_is_not_emitted_counterexample:
  "recognized (series row_backwards) \<and>
   parse_times to_datetime_sample (series row_backwards) = Inr (clock 14 30, clock 9 0) \<and>
   time_less (clock 9 0) (clock 14 30) \<and>
   create_calendar_from_df to_datetime_sample
     (timetable [row_monday, row_backwards, row_wednesday]) anchor_example 30 =
     Inl (ValueError ''End must be after begin'')"
proof -
  have "time_less (clock 9 0) (clock 14 30)" by (simp add: time_less_def clock_def)
  moreover have "create_calendar_from_df to_datetime_sample
     (timetable [row_monday, row_backwards, row_wednesday]) anchor_example 30 =
     Inl (ValueError ''End must be after begin'')"
    by (simp add: create_calendar_from_df_def iterrows_timetable row_event_monday
        row_event_backwards)
  ultimately show ?thesis using recognized_examples(3) parse_times_backwards by simp
qed

section \<open>Parsing the times (builder)\<close>

text \<open>
  C10, as the code has it. When the flexible parser returns a timestamp for the start
  text and for the end text of a row, on whatever dates, only the times of day of the
  two timestamps are used (midnight for a timestamp parsed from a bare date) and the
  dates are dropped. Take such a row, with distinct labels, a weekday and a subject, in
  a table whose earlier rows raise nothing (the day within the range of dates, the
  alarm offset within the range of \<open>timedelta\<close>). When the end's time of day is not
  before the start's, the row raises nothing and gives one event, which begins and ends
  at these times of day on the day the weekday of the row gives, and which is in every
  calendar the builder returns for the table. When the end's time of day is before the
  start's, the build raises "End must be after begin".
\<close>

theorem parsed_date_is_dropped_and_times_are_ordered:
  assumes "valid_datetime anchor"
    and "distinct (map fst r)"
    and "map_of r ''day'' = Some d" and "k < 7"
    and "lower (strip (str d)) = weekday_names ! k"
    and "date anchor - weekday anchor + int k \<le> MAXORDINAL"
    and "map_of r ''start'' = Some sc" and "map_of r ''end'' = Some ec"
    and "to_datetime (str sc) = Some ts" and "to_datetime (str ec) = Some te"
    and "map_of r ''subject'' = Some c"
    and "0 \<le> m" and "m \<le> 1439999998560"
    and "iterrows df = before @ r # after"
    and "add_rows to_datetime anchor m before [] = Inr cal"
  shows "(\<not> time_less (time te) (time ts) \<longrightarrow>
            (\<exists>ev. row_event to_datetime anchor m r = Inr (Some ev) \<and>
               ev_begin ev =
                 Some \<lparr>date = date anchor - weekday anchor + int k, time = time ts\<rparr> \<and>
               ev_end ev =
                 Some \<lparr>date = date anchor - weekday anchor + int k, time = time te\<rparr> \<and>
               (create_calendar_from_df to_datetime df anchor m = Inr evs \<longrightarrow> ev \<in> set evs))) \<and>
         (time_less (time te) (time ts) \<longrightarrow>
            create_calendar_from_df to_datetime df anchor m =
              Inl (ValueError ''End must be after begin''))"
proof (intro conjI impI)
  note k = weekday_index_names [OF assms(3,4,5)]
  note p = parse_times_flexible [OF assms(7,8,9,10)]
  obtain tr where tr: "timedelta_minutes (- m) = Inr tr"
    using timedelta_minutes_in_range [OF assms(12,13)] by blast
  have r: "r \<in> set (iterrows df)" using assms(14) by simp
  {
    assume n: "\<not> time_less (time te) (time ts)"
    note ok = row_event_ok [OF assms(1) k assms(6) p assms(11) tr n]
    then obtain ev where ev: "row_event to_datetime anchor m r = Inr (Some ev)"
      "ev_begin ev = Some (combine (date anchor - weekday anchor + int k) (time ts))"
      "ev_end ev = Some (combine (date anchor - weekday anchor + int k) (time te))"
      by simp
    have "create_calendar_from_df to_datetime df anchor m = Inr evs \<longrightarrow> ev \<in> set evs"
      using event_in_calendar [OF ev(1) r] by blast
    then show "\<exists>ev. row_event to_datetime anchor m r = Inr (Some ev) \<and>
               ev_begin ev =
                 Some \<lparr>date = date anchor - weekday anchor + int k, time = time ts\<rparr> \<and>
               ev_end ev =
                 Some \<lparr>date = date anchor - weekday anchor + int k, time = time te\<rparr> \<and>
               (create_calendar_from_df to_datetime df anchor m = Inr evs \<longrightarrow> ev \<in> set evs)"
      using ev by (auto simp: combine_def)
  }
  {
    assume l: "time_less (time te) (time ts)"
    have re: "row_event to_datetime anchor m r = Inl (ValueError ''End must be after begin'')"
      by (rule row_event_end_before_begin [OF assms(1) k assms(6) p assms(11) l])
    show "create_calendar_from_df to_datetime df anchor m =
            Inl (ValueError ''End must be after begin'')"
      by (rule build_aborts [OF assms(14,15) re])
  }
qed

theorem parsed_date_is_dropped_and_times_are_ordered_witness:
  "valid_datetime anchor_example \<and>
   to_datetime_sample (str (Val ''2024-01-15'')) = Some \<lparr>date = 738900, time = clock 0 0\<rparr> \<and>
   to_datetime_sample (str (Val ''10:30'')) = Some \<lparr>date = 738903, time = clock 10 30\<rparr> \<and>
   map_of (series row_dated) ''start'' = Some (Val ''2024-01-15'') \<and>
   map_of (series row_dated) ''end'' = Some (Val ''10:30'') \<and>
   create_calendar_from_df to_datetime_sample (timetable [row_monday, row_dated])
     anchor_example 30 = Inr [event_monday, event_dated] \<and>
   (\<exists>ev. row_event to_datetime_sample anchor_example 30 (series row_dated) = Inr (Some ev) \<and>
      ev_begin ev = Some \<lparr>date = 738902, time = clock 0 0\<rparr> \<and>
      ev_end ev = Some \<lparr>date = 738902, time = clock 10 30\<rparr> \<and>
      ev \<in> set [event_monday, event_dated]) \<and>
   map_of (series row_dated_end) ''start'' = Some (Val ''10:30'') \<and>
   map_of (series row_dated_end) ''end'' = Some (Val ''2024-01-15'') \<and>
   add_rows to_datetime_sample anchor_example 30 [series row_monday] [] = Inr [event_monday] \<and>
   create_calendar_from_df to_datetime_sample (timetable [row_monday, row_dated_end])
     anchor_example 30 = Inl (ValueError ''End must be after begin'')"
proof -
  have t1: "to_datetime_sample (str (Val ''2024-01-15'')) = Some \<lparr>date = 738900, time = clock 0 0\<rparr>"
    by code_simp
  have t2: "to_datetime_sample (str (Val ''10:30'')) = Some \<lparr>date = 738903, time = clock 10 30\<rparr>"
    by code_simp
  have a1: "distinct (map fst (series row_dated))"
    unfolding row_dated_def by (rule series_distinct)
  have a2: "map_of (series row_dated) ''day'' = Some (Val ''Wednesday'')" by code_simp
  have a3: "lower (strip (str (Val ''Wednesday''))) = weekday_names ! 2" by code_simp
  have a4: "date anchor_example - weekday anchor_example + int 2 \<le> MAXORDINAL"
    by (simp add: anchor_example_monday MAXORDINAL_def)
  have a5: "map_of (series row_dated) ''start'' = Some (Val ''2024-01-15'')" by code_simp
  have a6: "map_of (series row_dated) ''end'' = Some (Val ''10:30'')" by code_simp
  have a7: "map_of (series row_dated) ''subject'' = Some (Val ''Lab'')" by code_simp
  have a8: "iterrows (timetable [row_monday, row_dated]) =
              [series row_monday] @ series row_dated # []"
    by (simp add: iterrows_timetable)
  have a9: "\<not> time_less (clock 10 30) (clock 0 0)" by (simp add: time_less_def clock_def)
  have a10: "date anchor_example - weekday anchor_example + int 2 = 738902"
    by (simp add: anchor_example_monday)
  from parsed_date_is_dropped_and_times_are_ordered [where m = 30
      and evs = "[event_monday, event_dated]",
      OF anchor_example_valid a1 a2 _ a3 a4 a5 a6 t1 t2 a7 _ _ a8 add_rows_example_monday]
    a9 example_build_dated
  have w: "\<exists>ev. row_event to_datetime_sample anchor_example 30 (series row_dated) = Inr (Some ev) \<and>
      ev_begin ev = Some \<lparr>date = 738902, time = clock 0 0\<rparr> \<and>
      ev_end ev = Some \<lparr>date = 738902, time = clock 10 30\<rparr> \<and>
      ev \<in> set [event_monday, event_dated]"
    unfolding a10 by simp
  have b1: "distinct (map fst (series row_dated_end))"
    unfolding row_dated_end_def by (rule series_distinct)
  have b2: "map_of (series row_dated_end) ''day'' = Some (Val ''Wednesday'')" by code_simp
  have b5: "map_of (series row_dated_end) ''start'' = Some (Val ''10:30'')" by code_simp
  have b6: "map_of (series row_dated_end) ''end'' = Some (Val ''2024-01-15'')" by code_simp
  have b7: "map_of (series row_dated_end) ''subject'' = Some (Val ''Lab'')" by code_simp
  have b8: "iterrows (timetable [row_monday, row_dated_end]) =
              [series row_monday] @ series row_dated_end # []"
    by (simp add: iterrows_timetable)
  have b9: "time_less (clock 0 0) (clock 10 30)" by (simp add: time_less_def clock_def)
  from parsed_date_is_dropped_and_times_are_ordered [where m = 30,
      OF anchor_example_valid b1 b2 _ a3 a4 b5 b6 t2 t1 b7 _ _ b8 add_rows_example_monday]
    b9
  have b: "create_calendar_from_df to_datetime_sample (timetable [row_monday, row_dated_end])
     anchor_example 30 = Inl (ValueError ''End must be after begin'')"
    by simp
  from anchor_example_valid t1 t2 a5 a6 example_build_dated w b5 b6 add_rows_example_monday b
  show ?thesis by blast
qed

text \<open>
  C10, counterexample. A bare date in the end cell does raise an error: in the table of
  the one row Wednesday, \<open>10:30\<close> to \<open>2024-01-15\<close>, the flexible parser accepts both
  texts, the end becomes midnight, before the start, and the build raises "End must be
  after begin".
\<close>

theorem bare_date_as_end_raises_counterexample:
  "to_datetime_sample ''10:30'' = Some \<lparr>date = 738903, time = clock 10 30\<rparr> \<and>
   to_datetime_sample ''2024-01-15'' = Some \<lparr>date = 738900, time = clock 0 0\<rparr> \<and>
   parse_times to_datetime_sample (series row_dated_end) = Inr (clock 10 30, clock 0 0) \<and>
   create_calendar_from_df to_datetime_sample (timetable [row_dated_end]) anchor_example 30 =
     Inl (ValueError ''End must be after begin'')"
proof -
  have 1: "to_datetime_sample ''10:30'' = Some \<lparr>date = 738903, time = clock 10 30\<rparr>"
    by code_simp
  have 2: "to_datetime_sample ''2024-01-15'' = Some \<lparr>date = 738900, time = clock 0 0\<rparr>"
    by code_simp
  have "create_calendar_from_df to_datetime_sample (timetable [row_dated_end])
      anchor_example 30 = Inl (ValueError ''End must be after begin'')"
    by (simp add: create_calendar_from_df_def iterrows_timetable row_event_dated_end)
  with 1 2 parse_times_dated_end show ?thesis by simp
qed

text \<open>
  C3, as the code has it. For a recognized row the flexible parse of start and end is
  tried first and, when it accepts both, gives their times of day. When it fails on
  either, both texts are parsed again strictly as \<open>%H:%M\<close> (which reads \<open>09:00\<close> as 09:00
  and rejects \<open>9:00AM\<close> and \<open>25:99\<close>), and the first failure, of the start and then of
  the end, is the error of the row: it is \<open>strptime\<close>'s error about that text, which
  tells neither the row nor the column. An error of the row is the result of the whole
  build, which then returns no calendar.
\<close>

theorem flexible_parse_then_strict_or_abort:
  assumes "valid_datetime anchor"
    and "weekday_index r = Some k"
    and "date anchor - weekday anchor + k \<le> MAXORDINAL"
    and "map_of r ''start'' = Some sc" and "map_of r ''end'' = Some ec"
    and "iterrows df = before @ r # after"
    and "add_rows to_datetime anchor m before [] = Inr cal"
  shows "(to_datetime (str sc) = Some ts \<and> to_datetime (str ec) = Some te \<longrightarrow>
            parse_times to_datetime r = Inr (time ts, time te)) \<and>
         (to_datetime (str sc) = None \<or> to_datetime (str ec) = None \<longrightarrow>
            parse_times to_datetime r =
              (case strptime_HM (str sc) of
                 Inl err \<Rightarrow> Inl err
               | Inr t1 \<Rightarrow>
                   (case strptime_HM (str ec) of
                      Inl err \<Rightarrow> Inl err
                    | Inr t2 \<Rightarrow> Inr (t1, t2)))) \<and>
         (parse_times to_datetime r = Inl err \<longrightarrow>
            create_calendar_from_df to_datetime df anchor m = Inl err) \<and>
         strptime_HM ''09:00'' = Inr \<lparr>hour = 9, minute = 0, second = 0, microsecond = 0\<rparr> \<and>
         strptime_HM ''9:00AM'' = Inl (StrptimeUnconverted ''AM'') \<and>
         strptime_HM ''25:99'' = Inl (StrptimeMismatch ''25:99'')"
proof (intro conjI impI)
  assume "to_datetime (str sc) = Some ts \<and> to_datetime (str ec) = Some te"
  then show "parse_times to_datetime r = Inr (time ts, time te)"
    using parse_times_flexible [OF assms(4,5)] by blast
next
  assume "to_datetime (str sc) = None \<or> to_datetime (str ec) = None"
  then show "parse_times to_datetime r =
              (case strptime_HM (str sc) of
                 Inl err \<Rightarrow> Inl err
               | Inr t1 \<Rightarrow>
                   (case strptime_HM (str ec) of
                      Inl err \<Rightarrow> Inl err
                    | Inr t2 \<Rightarrow> Inr (t1, t2)))"
    by (rule parse_times_fallback [OF assms(4,5)])
next
  assume e: "parse_times to_datetime r = Inl err"
  have "row_event to_datetime anchor m r = Inl err"
    unfolding row_event_recognized [OF assms(1,2)] using assms(3) e by simp
  then have "add_rows to_datetime anchor m (r # after) cal = Inl err" by simp
  then show "create_calendar_from_df to_datetime df anchor m = Inl err"
    unfolding create_calendar_from_df_def assms(6) add_rows_append assms(7) by simp
next
  show "strptime_HM ''09:00'' = Inr \<lparr>hour = 9, minute = 0, second = 0, microsecond = 0\<rparr>"
    by code_simp
  show "strptime_HM ''9:00AM'' = Inl (StrptimeUnconverted ''AM'')" by code_simp
  show "strptime_HM ''25:99'' = Inl (StrptimeMismatch ''25:99'')" by code_simp
qed

theorem flexible_parse_then_strict_or_abort_witness:
  "valid_datetime anchor_example \<and>
   weekday_index (series row_wednesday) = Some 2 \<and>
   to_datetime_sample (str (Val ''2:30PM'')) = Some \<lparr>date = 738903, time = clock 14 30\<rparr> \<and>
   to_datetime_sample (str (Val ''4:00PM'')) = Some \<lparr>date = 738903, time = clock 16 0\<rparr> \<and>
   parse_times to_datetime_sample (series row_wednesday) = Inr (clock 14 30, clock 16 0) \<and>
   weekday_index (series row_bad_end) = Some 1 \<and>
   to_datetime_sample (str (Val ''25:99'')) = None \<and>
   parse_times to_datetime_sample (series row_bad_end) = Inl (StrptimeUnconverted ''PM'') \<and>
   add_rows to_datetime_sample anchor_example 30 [series row_monday] [] = Inr [event_monday] \<and>
   create_calendar_from_df to_datetime_sample
     (timetable [row_monday, row_bad_end, row_wednesday]) anchor_example 30 =
     Inl (StrptimeUnconverted ''PM'')"
proof -
  have w1: "weekday_index (series row_wednesday) = Some 2" by code_simp
  have w2: "date anchor_example - weekday anchor_example + 2 \<le> MAXORDINAL"
    by (simp add: anchor_example_monday MAXORDINAL_def)
  have w3: "map_of (series row_wednesday) ''start'' = Some (Val ''2:30PM'')" by code_simp
  have w4: "map_of (series row_wednesday) ''end'' = Some (Val ''4:00PM'')" by code_simp
  have w5: "to_datetime_sample (str (Val ''2:30PM'')) = Some \<lparr>date = 738903, time = clock 14 30\<rparr>"
    by code_simp
  have w6: "to_datetime_sample (str (Val ''4:00PM'')) = Some \<lparr>date = 738903, time = clock 16 0\<rparr>"
    by code_simp
  have w7: "iterrows (timetable [row_monday, row_wednesday]) =
              [series row_monday] @ series row_wednesday # []"
    by (simp add: iterrows_timetable)
  have b1: "weekday_index (series row_bad_end) = Some 1" by code_simp
  have b2: "date anchor_example - weekday anchor_example + 1 \<le> MAXORDINAL"
    by (simp add: anchor_example_monday MAXORDINAL_def)
  have b3: "map_of (series row_bad_end) ''start'' = Some (Val ''2:30PM'')" by code_simp
  have b4: "map_of (series row_bad_end) ''end'' = Some (Val ''25:99'')" by code_simp
  have b5: "to_datetime_sample (str (Val ''25:99'')) = None" by code_simp
  have b6: "strptime_HM (str (Val ''2:30PM'')) = Inl (StrptimeUnconverted ''PM'')" by code_simp
  have b7: "iterrows (timetable [row_monday, row_bad_end, row_wednesday]) =
              [series row_monday] @ series row_bad_end # [series row_wednesday]"
    by (simp add: iterrows_timetable)
  from flexible_parse_then_strict_or_abort [OF anchor_example_valid w1 w2 w3 w4 w7
      add_rows_example_monday, of "\<lparr>date = 738903, time = clock 14 30\<rparr>"
      "\<lparr>date = 738903, time = clock 16 0\<rparr>"] w5 w6
  have p: "parse_times to_datetime_sample (series row_wednesday) = Inr (clock 14 30, clock 16 0)"
    by simp
  note t = flexible_parse_then_strict_or_abort [OF anchor_example_valid b1 b2 b3 b4 b7
      add_rows_example_monday, of _ _ "StrptimeUnconverted ''PM''"]
  from t b5 b6
  have q: "parse_times to_datetime_sample (series row_bad_end) = Inl (StrptimeUnconverted ''PM'')"
    by simp
  with t have "create_calendar_from_df to_datetime_sample
     (timetable [row_monday, row_bad_end, row_wednesday]) anchor_example 30 =
     Inl (StrptimeUnconverted ''PM'')"
    by blast
  with anchor_example_valid w1 w5 w6 p b1 b5 q add_rows_example_monday show ?thesis by blast
qed

text \<open>
  C3, counterexample. The error need not be about the field that fails to parse. In the
  table whose second row starts at \<open>2:30PM\<close> and ends at \<open>25:99\<close>, the end is the
  text both parsers reject and the flexible parser accepts the start; the build raises
  the error of the strict parse of the start, "unconverted data remains: PM", not the
  one of the end.
\<close>

theorem time_error_is_not_of_the_offending_field_counterexample:
  "to_datetime_sample ''2:30PM'' = Some \<lparr>date = 738903, time = clock 14 30\<rparr> \<and>
   to_datetime_sample ''25:99'' = None \<and>
   strptime_HM ''25:99'' = Inl (StrptimeMismatch ''25:99'') \<and>
   strptime_HM ''2:30PM'' = Inl (StrptimeUnconverted ''PM'') \<and>
   create_calendar_from_df to_datetime_sample
     (timetable [row_monday, row_bad_end, row_wednesday]) anchor_example 30 =
     Inl (StrptimeUnconverted ''PM'') \<and>
   create_calendar_from_df to_datetime_sample
     (timetable [row_monday, row_bad_end, row_wednesday]) anchor_example 30 \<noteq>
     Inl (StrptimeMismatch ''25:99'')"
proof -
  have 1: "to_datetime_sample ''2:30PM'' = Some \<lparr>date = 738903, time = clock 14 30\<rparr>"
    by code_simp
  have 2: "to_datetime_sample ''25:99'' = None" by code_simp
  have 3: "strptime_HM ''25:99'' = Inl (StrptimeMismatch ''25:99'')" by code_simp
  have 4: "strptime_HM ''2:30PM'' = Inl (StrptimeUnconverted ''PM'')" by code_simp
  from 1 2 3 4 example_build_bad_end show ?thesis by simp
qed

end

